theory Spec2Isabelle
  imports Complex_Main "HOL-Library.Char_ord" "HOL-Library.List_Lexorder" "HOL-Library.Sublist"
begin

section \<open>Retry controller (src/utils/retry.js)\<close>

text \<open>
  Times are milliseconds. JavaScript numbers are modelled by exact reals; a duration that
  the source computes as \<open>NaN\<close> is \<open>None\<close>. The only effect of \<open>sleep(ms)\<close> that
  the model keeps is the request itself: every call appends its argument to the log
  \<open>slept\<close> of the world. The record is extensible, so a unit of work can carry state of
  its own in the extension.
\<close>

record world =
  slept :: "real option list"

definition sleep :: "real option \<Rightarrow> 'z world_scheme \<Rightarrow> 'z world_scheme" where
  "sleep ms w = w\<lparr>slept := slept w @ [ms]\<rparr>"

text \<open>A world whose extension counts how often a unit of work has run.\<close>

record counted = world +
  calls :: nat

text \<open>
  Anything can be thrown in JavaScript. A thrown value is \<open>Some e\<close>, or \<open>None\<close> when
  it is \<open>undefined\<close> or \<open>null\<close>, the two values that have no properties to read.
  \<open>retryWithBackoff\<close> rejects with a value that the unit of work or the
  \<open>onRetry\<close> callback threw, rethrown as it is; with the wrapping error built after the
  loop, with its \<open>cause\<close> and \<open>attempts\<close> fields; or with the \<open>TypeError\<close> of
  reading \<open>lastError.message\<close> from \<open>undefined\<close> or \<open>null\<close>.
\<close>

datatype 'e raised =
    Thrown "'e option"
  | RetryError (cause: 'e) (attempts: nat)
  | TypeError

record ('e, 'w) retry_options =
  maxRetries :: int
  initialDelay :: real
  maxDelay :: real
  factor :: real
  jitter :: bool
  onRetry :: "('e option \<Rightarrow> nat \<Rightarrow> real \<Rightarrow> 'w \<Rightarrow> ('e option + unit) \<times> 'w) option"
  shouldRetry :: "'e option \<Rightarrow> nat \<Rightarrow> bool"

definition default_options :: "('e, 'w) retry_options" where
  "default_options =
     \<lparr>maxRetries = 3, initialDelay = 1000, maxDelay = 30000, factor = 2, jitter = True,
      onRetry = None, shouldRetry = (\<lambda>error attempt. True)\<rparr>"

definition backoff_delay :: "('e, 'w) retry_options \<Rightarrow> (nat \<Rightarrow> real) \<Rightarrow> nat \<Rightarrow> real" where
  "backoff_delay opts rnd attempt =
     (let delay = min (initialDelay opts * factor opts ^ attempt) (maxDelay opts)
      in if jitter opts then delay * (0.5 + rnd attempt * 0.5) else delay)"

text \<open>\<open>if (onRetry) await onRetry(error, attempt + 1, delay)\<close>: \<open>Inl\<close> when the callback throws.\<close>

definition notify ::
  "('e, 'w) retry_options \<Rightarrow> 'e option \<Rightarrow> nat \<Rightarrow> real \<Rightarrow> 'w \<Rightarrow> ('e option + unit) \<times> 'w" where
  "notify opts error n delay w =
     (case onRetry opts of None \<Rightarrow> (Inr (), w) | Some callback \<Rightarrow> callback error n delay w)"

text \<open>
  The three statements after the loop: the template string reads \<open>lastError.message\<close>,
  which throws a \<open>TypeError\<close> when \<open>lastError\<close> is \<open>undefined\<close> (the loop body never
  ran) or the work threw \<open>undefined\<close> or \<open>null\<close>.
\<close>

definition after_loop :: "nat \<Rightarrow> 'e option \<Rightarrow> 'w \<Rightarrow> ('e raised + 'a) \<times> 'w" where
  "after_loop attempt lastError w =
     (case lastError of
        None \<Rightarrow> (Inl TypeError, w)
      | Some e \<Rightarrow> (Inl (RetryError e attempt), w))"

text \<open>
  The \<open>while\<close> loop of \<open>retryWithBackoff\<close>, on its two variables \<open>attempt\<close> and
  \<open>lastError\<close>. \<open>fn attempt w\<close> is the awaited unit of work: \<open>Inl\<close> when it throws.
  \<open>rnd attempt\<close> is what \<open>Math.random()\<close> returns in the iteration of that attempt.
\<close>

function retry_loop ::
  "(nat \<Rightarrow> 'z world_scheme \<Rightarrow> ('e option + 'a) \<times> 'z world_scheme) \<Rightarrow>
   ('e, 'z world_scheme) retry_options \<Rightarrow> (nat \<Rightarrow> real) \<Rightarrow>
   nat \<Rightarrow> 'e option \<Rightarrow> 'z world_scheme \<Rightarrow> ('e raised + 'a) \<times> 'z world_scheme" where
  "retry_loop fn opts rnd attempt lastError w =
     (if int attempt \<le> maxRetries opts then
        (case fn attempt w of
           (Inr v, w1) \<Rightarrow> (Inr v, w1)
         | (Inl error, w1) \<Rightarrow>
             if int attempt \<ge> maxRetries opts then after_loop attempt error w1
             else if \<not> shouldRetry opts error attempt then (Inl (Thrown error), w1)
             else
               (let delay = backoff_delay opts rnd attempt in
                case notify opts error (attempt + 1) delay w1 of
                  (Inl error2, w2) \<Rightarrow> (Inl (Thrown error2), w2)
                | (Inr u, w2) \<Rightarrow>
                    retry_loop fn opts rnd (Suc attempt) error (sleep (Some delay) w2)))
      else after_loop attempt lastError w)"
  by pat_completeness auto
termination
  by (relation "measure (\<lambda>(fn, opts, rnd, attempt, lastError, w).
        nat (maxRetries opts + 1 - int attempt))") auto

declare retry_loop.simps [simp del]

definition retryWithBackoff ::
  "(nat \<Rightarrow> 'z world_scheme \<Rightarrow> ('e option + 'a) \<times> 'z world_scheme) \<Rightarrow>
   ('e, 'z world_scheme) retry_options \<Rightarrow> (nat \<Rightarrow> real) \<Rightarrow>
   'z world_scheme \<Rightarrow> ('e raised + 'a) \<times> 'z world_scheme" where
  "retryWithBackoff fn opts rnd w = retry_loop fn opts rnd 0 None w"

text \<open>
  A unit of work for concrete runs: it counts that it has run and throws its attempt number.
\<close>

definition failing_work :: "nat \<Rightarrow> counted \<Rightarrow> (nat option + unit) \<times> counted" where
  "failing_work attempt w = (Inl (Some attempt), w\<lparr>calls := Suc (calls w)\<rparr>)"


section \<open>Rate limiter (src/unnamed/part_005, imported as utils/rateLimit.js)\<close>

text \<open>
  \<open>Date.now()\<close> is a count of milliseconds since the epoch, a natural number; the token
  count and the rates are JavaScript numbers, modelled by exact reals.
\<close>

record bucket =
  maxTokens :: real
  refillRate :: real
  tokens :: real
  lastRefill :: nat

record limiter_options =
  opt_maxTokens :: "real option"
  opt_refillRate :: "real option"

text \<open>\<open>x || d\<close> on an optional number: \<open>undefined\<close> and \<open>0\<close> are falsy.\<close>

definition or_default :: "real option \<Rightarrow> real \<Rightarrow> real" where
  "or_default x d = (case x of None \<Rightarrow> d | Some v \<Rightarrow> if v = 0 then d else v)"

definition RateLimiter :: "limiter_options \<Rightarrow> nat \<Rightarrow> bucket" where
  "RateLimiter options now =
     \<lparr>maxTokens = or_default (opt_maxTokens options) 10,
      refillRate = or_default (opt_refillRate options) 1,
      tokens = or_default (opt_maxTokens options) 10,
      lastRefill = now\<rparr>"

definition FreeeRateLimiter :: "nat \<Rightarrow> bucket" where
  "FreeeRateLimiter now = RateLimiter \<lparr>opt_maxTokens = Some 5, opt_refillRate = Some (5 / 60)\<rparr> now"

definition QuickBooksRateLimiter :: "nat \<Rightarrow> bucket" where
  "QuickBooksRateLimiter now =
     RateLimiter \<lparr>opt_maxTokens = Some 10, opt_refillRate = Some (10 / 60)\<rparr> now"

definition refill :: "nat \<Rightarrow> bucket \<Rightarrow> bucket" where
  "refill now b =
     (let elapsed = (real now - real (lastRefill b)) / 1000;
          tokensToAdd = elapsed * refillRate b
      in b\<lparr>tokens := min (maxTokens b) (tokens b + tokensToAdd), lastRefill := now\<rparr>)"

definition tryAcquire :: "nat \<Rightarrow> bucket \<Rightarrow> bool \<times> bucket" where
  "tryAcquire now b =
     (let b1 = refill now b
      in if tokens b1 \<ge> 1 then (True, b1\<lparr>tokens := tokens b1 - 1\<rparr>) else (False, b1))"

text \<open>
  The limiter is shared by every task of the process. While one call of \<open>acquire\<close> is
  suspended in \<open>sleep\<close>, other tasks may run their own attempts on the same bucket:
  \<open>others_run ts\<close> is the effect of such attempts made at the clock readings \<open>ts\<close>
  (each attempt refills and takes a token when one is there, as the first half of
  \<open>acquire\<close> and \<open>tryAcquire\<close> do).
\<close>

fun others_run :: "nat list \<Rightarrow> bucket \<Rightarrow> bucket" where
  "others_run [] b = b"
| "others_run (t # ts) b = others_run ts (snd (tryAcquire t b))"

text \<open>The sleep that \<open>acquire\<close> asks for; a division by a zero rate is not a finite number.\<close>

definition waitTime :: "bucket \<Rightarrow> real option" where
  "waitTime b =
     (let tokensNeeded = 1 - tokens b
      in if refillRate b = 0 then None else Some ((tokensNeeded / refillRate b) * 1000))"

text \<open>
  One run of \<open>acquire\<close>: the value the call resolves with (\<open>None\<close> while it is still
  suspended), the bucket and the world it leaves.
\<close>

record 'w acquire_run =
  returned :: "bool option"
  state :: bucket
  after :: 'w

text \<open>
  The environment of a run lists, for every time the body of \<open>acquire\<close> runs, the
  attempts of other tasks that ran before it (while the call slept) and the reading of
  \<open>Date.now()\<close> in its own \<open>refill\<close>. When the list ends, the run is still suspended.
  The source retries by \<open>return this.acquire()\<close> after the awaited sleep: what the call
  resolves with is what the retry resolves with.
\<close>

fun acquire ::
  "(nat list \<times> nat) list \<Rightarrow> bucket \<Rightarrow> 'z world_scheme \<Rightarrow> 'z world_scheme acquire_run" where
  "acquire [] b w = \<lparr>returned = None, state = b, after = w\<rparr>"
| "acquire ((others, now) # env) b w =
     (let b1 = refill now (others_run others b)
      in if tokens b1 \<ge> 1 then
           \<lparr>returned = Some True, state = b1\<lparr>tokens := tokens b1 - 1\<rparr>, after = w\<rparr>
         else acquire env b1 (sleep (waitTime b1) w))"

text \<open>Sequences of operations on one bucket, each with the clock readings it makes.\<close>

datatype limiter_op = Refill nat | TryAcquire nat | Acquire "(nat list \<times> nat) list"

fun apply_op :: "limiter_op \<Rightarrow> bucket \<Rightarrow> bucket" where
  "apply_op (Refill now) b = refill now b"
| "apply_op (TryAcquire now) b = snd (tryAcquire now b)"
| "apply_op (Acquire env) b = state (acquire env b \<lparr>slept = []\<rparr>)"

fun run_ops :: "limiter_op list \<Rightarrow> bucket \<Rightarrow> bucket" where
  "run_ops [] b = b"
| "run_ops (x # xs) b = run_ops xs (apply_op x b)"

fun env_readings :: "(nat list \<times> nat) list \<Rightarrow> nat list" where
  "env_readings [] = []"
| "env_readings ((others, now) # env) = others @ now # env_readings env"

fun op_readings :: "limiter_op \<Rightarrow> nat list" where
  "op_readings (Refill now) = [now]"
| "op_readings (TryAcquire now) = [now]"
| "op_readings (Acquire env) = env_readings env"

text \<open>The clock never steps back: every reading is at least the one before it.\<close>

fun chronological :: "nat \<Rightarrow> nat list \<Rightarrow> bool" where
  "chronological t [] = True"
| "chronological t (x # xs) = (t \<le> x \<and> chronological x xs)"

definition bucket_inv :: "bucket \<Rightarrow> bool" where
  "bucket_inv b = (0 \<le> tokens b \<and> tokens b \<le> maxTokens b)"

text \<open>
  A bucket that occurs in practice: the freee limiter created at clock reading 0, after five
  attempts in the same millisecond have taken its five tokens.
\<close>

definition drained_freee :: bucket where
  "drained_freee =
     run_ops [TryAcquire 0, TryAcquire 0, TryAcquire 0, TryAcquire 0, TryAcquire 0]
       (FreeeRateLimiter 0)"

section \<open>Rate-limit responses (src/unnamed/part_005) and retryable errors (src/utils/retry.js)\<close>

text \<open>
  An HTTP response as the client reads it: the status, \<open>headers.get\<close> (\<open>None\<close> for the
  \<open>null\<close> of an absent header) and the body text.
\<close>

record response =
  status :: nat
  headers :: "string \<Rightarrow> string option"
  body :: string

definition ok :: "response \<Rightarrow> bool" where
  "ok r = (200 \<le> status r \<and> status r \<le> 299)"

text \<open>
  \<open>parseInt(s, 10)\<close>: leading white space is skipped, one sign is read, then the longest
  run of decimal digits; no digit at all gives \<open>NaN\<close>, here \<open>None\<close>.
\<close>

definition is_space :: "char \<Rightarrow> bool" where
  "is_space c = (c \<in> set [CHR '' '', CHR 0x09, CHR 0x0A, CHR 0x0B, CHR 0x0C, CHR 0x0D])"

definition is_digit :: "char \<Rightarrow> bool" where
  "is_digit c = (c \<in> set ''0123456789'')"

definition digit_value :: "char \<Rightarrow> nat" where
  "digit_value c = of_char c - 48"

definition digits_value :: "string \<Rightarrow> nat" where
  "digits_value ds = foldl (\<lambda>acc c. 10 * acc + digit_value c) 0 ds"

definition parseInt :: "string \<Rightarrow> int option" where
  "parseInt s =
     (let t = dropWhile is_space s;
          negative = (t \<noteq> [] \<and> hd t = CHR ''-'');
          u = (if t \<noteq> [] \<and> (hd t = CHR ''-'' \<or> hd t = CHR ''+'') then tl t else t);
          ds = takeWhile is_digit u
      in if ds = [] then None
         else Some (if negative then - int (digits_value ds) else int (digits_value ds)))"

text \<open>A string is truthy when it is there and not empty.\<close>

definition truthy :: "string option \<Rightarrow> bool" where
  "truthy x = (case x of None \<Rightarrow> False | Some s \<Rightarrow> s \<noteq> [])"

text \<open>
  The \<open>waitTime\<close> of \<open>handleRateLimit\<close> before the buffer is added. \<open>Date_parse s\<close> is
  \<open>new Date(s).getTime()\<close>, a function of the JavaScript engine (\<open>None\<close> for an invalid
  date); \<open>now\<close> is the reading of \<open>Date.now()\<close>. \<open>Math.max(0, NaN)\<close> is \<open>NaN\<close>.
\<close>

definition header_wait :: "(string \<Rightarrow> int option) \<Rightarrow> nat \<Rightarrow> response \<Rightarrow> real option" where
  "header_wait Date_parse now response =
     (let retryAfter = headers response ''Retry-After'';
          rateLimitReset = headers response ''X-RateLimit-Reset''
      in if truthy retryAfter then
           (case parseInt (the retryAfter) of
              Some seconds \<Rightarrow> Some (real_of_int (seconds * 1000))
            | None \<Rightarrow>
                (case Date_parse (the retryAfter) of
                   Some retryDate \<Rightarrow> Some (max 0 (real_of_int (retryDate - int now)))
                 | None \<Rightarrow> Some 60000))
         else if truthy rateLimitReset then
           (case parseInt (the rateLimitReset) of
              Some seconds \<Rightarrow> Some (max 0 (real_of_int (seconds * 1000 - int now)))
            | None \<Rightarrow> None)
         else Some 60000)"

definition handleRateLimit ::
  "(string \<Rightarrow> int option) \<Rightarrow> nat \<Rightarrow> response \<Rightarrow> 'z world_scheme \<Rightarrow> bool \<times> 'z world_scheme" where
  "handleRateLimit Date_parse now response w =
     (if status response \<noteq> 429 then (False, w)
      else (True, sleep (map_option (\<lambda>waitTime. waitTime + 1000)
                           (header_wait Date_parse now response)) w))"

text \<open>
  The errors the client throws are \<open>Error\<close> objects with fields bolted on; a field that
  was never set is \<open>None\<close>. \<open>isRetryableError\<close> is also called on a bare status number,
  which has none of the three fields it reads.
\<close>

record api_error =
  error_message :: string
  error_status :: "nat option"
  error_code :: "string option"
  error_response :: "string option"

datatype js_value = ErrorObject api_error | Number nat

fun includes_str :: "string \<Rightarrow> string \<Rightarrow> bool" where
  "includes_str [] sub = (sub = [])"
| "includes_str (c # s) sub = (prefix sub (c # s) \<or> includes_str s sub)"

definition isRetryableError :: "js_value \<Rightarrow> bool" where
  "isRetryableError v =
     (case v of
        Number n \<Rightarrow> False
      | ErrorObject error \<Rightarrow>
          if error_code error \<in> set [Some ''ECONNREFUSED'', Some ''ETIMEDOUT'',
                                     Some ''ECONNRESET'', Some ''EPIPE''] then True
          else (case error_status error of
                  Some s \<Rightarrow>
                    if s \<noteq> 0 then s \<in> set [408, 429, 500, 502, 503, 504]
                    else error_message error \<noteq> [] \<and>
                         (includes_str (error_message error) ''fetch failed'' \<or>
                          includes_str (error_message error) ''network'' \<or>
                          includes_str (error_message error) ''timeout'')
                | None \<Rightarrow>
                    error_message error \<noteq> [] \<and>
                    (includes_str (error_message error) ''fetch failed'' \<or>
                     includes_str (error_message error) ''network'' \<or>
                     includes_str (error_message error) ''timeout'')))"

section \<open>The freee client (src/services/freeeClient.js)\<close>

fun string_of_nat :: "nat \<Rightarrow> string" where
  "string_of_nat n =
     (if n < 10 then [char_of (48 + n)]
      else string_of_nat (n div 10) @ [char_of (48 + n mod 10)])"

declare string_of_nat.simps [simp del]

text \<open>
  One attempt of \<open>getJournals\<close> and of \<open>getItems\<close>, from the response on. What an
  attempt does before it has the response (a slot of the rate limiter, the access token, the
  URL, the log lines) is not part of this model: \<open>response\<close> is what \<open>fetch\<close> resolved
  with and \<open>now\<close> the clock reading inside \<open>handleRateLimit\<close>. \<open>JSON_parse\<close> is the
  engine's \<open>JSON.parse\<close>, \<open>None\<close> when it throws. What an attempt throws is always an
  \<open>Error\<close> object, \<open>Some\<close> of it as a thrown value.
\<close>

definition syntax_error :: api_error where
  "syntax_error =
     \<lparr>error_message = ''Unexpected token in JSON'', error_status = None, error_code = None,
      error_response = None\<rparr>"

definition journals_attempt ::
  "(string \<Rightarrow> int option) \<Rightarrow> (string \<Rightarrow> 'a option) \<Rightarrow> nat \<Rightarrow> response \<Rightarrow>
   'z world_scheme \<Rightarrow> (api_error option + 'a) \<times> 'z world_scheme" where
  "journals_attempt Date_parse JSON_parse now response w =
     (if \<not> ok response then
        (let error = \<lparr>error_message = ''freee API error: '' @ string_of_nat (status response)
                         @ '' '' @ body response,
                       error_status = Some (status response), error_code = None,
                       error_response = Some (body response)\<rparr>;
             w1 = (if status response = 429
                   then snd (handleRateLimit Date_parse now response w) else w)
         in if \<not> isRetryableError (Number (status response)) then (Inl (Some error), w1)
            else (Inl (Some error), w1))
      else (case JSON_parse (body response) of
              Some v \<Rightarrow> (Inr v, w)
            | None \<Rightarrow> (Inl (Some syntax_error), w)))"

definition items_attempt ::
  "(string \<Rightarrow> int option) \<Rightarrow> (string \<Rightarrow> 'a option) \<Rightarrow> nat \<Rightarrow> response \<Rightarrow>
   'z world_scheme \<Rightarrow> (api_error option + 'a) \<times> 'z world_scheme" where
  "items_attempt Date_parse JSON_parse now response w =
     (if \<not> ok response then
        (let error = \<lparr>error_message = ''freee API error: '' @ string_of_nat (status response)
                         @ '' '' @ body response,
                       error_status = Some (status response), error_code = None,
                       error_response = None\<rparr>;
             w1 = (if status response = 429
                   then snd (handleRateLimit Date_parse now response w) else w)
         in if \<not> isRetryableError (Number (status response)) then (Inl (Some error), w1)
            else (Inl (Some error), w1))
      else (case JSON_parse (body response) of
              Some v \<Rightarrow> (Inr v, w)
            | None \<Rightarrow> (Inl (Some syntax_error), w)))"

text \<open>
  The two calls of \<open>retryWithBackoff\<close>. \<open>fetch attempt\<close> is the response to the request
  of that attempt and \<open>clock attempt\<close> the clock reading while it is handled.
  \<open>getJournals\<close> passes \<open>maxRetries: 3\<close> and a \<open>shouldRetry\<close> of its own, which hands
  the status number to \<open>isRetryableError\<close>; \<open>getItems\<close> passes no options. The
  \<open>shouldRetry\<close> of \<open>getJournals\<close> reads \<open>error.status\<close>; on \<open>undefined\<close> or
  \<open>null\<close> that would throw, but its attempts throw \<open>Error\<close> objects only, and the
  model answers false there.
\<close>

definition getJournals ::
  "(string \<Rightarrow> int option) \<Rightarrow> (string \<Rightarrow> 'a option) \<Rightarrow> (nat \<Rightarrow> nat) \<Rightarrow> (nat \<Rightarrow> response) \<Rightarrow>
   (nat \<Rightarrow> real) \<Rightarrow> 'z world_scheme \<Rightarrow> (api_error raised + 'a) \<times> 'z world_scheme" where
  "getJournals Date_parse JSON_parse clock fetch rnd w =
     retryWithBackoff
       (\<lambda>attempt. journals_attempt Date_parse JSON_parse (clock attempt) (fetch attempt))
       (default_options\<lparr>maxRetries := 3,
          shouldRetry := (\<lambda>error attempt.
            (case error of
               None \<Rightarrow> False
             | Some e \<Rightarrow>
                 (case error_status e of
                    None \<Rightarrow> False
                  | Some s \<Rightarrow> s \<noteq> 0 \<and> isRetryableError (Number s))))\<rparr>)
       rnd w"

definition getItems ::
  "(string \<Rightarrow> int option) \<Rightarrow> (string \<Rightarrow> 'a option) \<Rightarrow> (nat \<Rightarrow> nat) \<Rightarrow> (nat \<Rightarrow> response) \<Rightarrow>
   (nat \<Rightarrow> real) \<Rightarrow> 'z world_scheme \<Rightarrow> (api_error raised + 'a) \<times> 'z world_scheme" where
  "getItems Date_parse JSON_parse clock fetch rnd w =
     retryWithBackoff
       (\<lambda>attempt. items_attempt Date_parse JSON_parse (clock attempt) (fetch attempt))
       default_options rnd w"

text \<open>Two responses for concrete runs: a 429 that asks for two seconds, and a 200.\<close>

definition too_many_requests :: response where
  "too_many_requests =
     \<lparr>status = 429, headers = (\<lambda>h. if h = ''Retry-After'' then Some ''2'' else None),
      body = ''slow down''\<rparr>"

definition ok_empty_list :: response where
  "ok_empty_list = \<lparr>status = 200, headers = (\<lambda>h. None), body = ''[]''\<rparr>"

section \<open>Credential store (src/services/tokenStorage.js)\<close>

text \<open>
  A file is missing, fails to be read with some other error code, or has a content.
  \<open>write_error\<close> is the error code with which \<open>writeFile\<close> and \<open>chmod\<close> fail, if
  they do. \<open>encryptionKey\<close> is the module's variable of that name.
\<close>

datatype disk_file = Missing | Failing string | Content string

datatype storage_error = Errno string | SyntaxError | CryptoError

record storage =
  encryptionKey :: "string option"
  key_file :: disk_file
  token_file :: disk_file
  write_error :: "string option"

record encrypted_data =
  encrypted :: string
  iv :: string
  authTag :: string

record credential =
  access_token :: "string option"
  refresh_token :: "string option"
  expires_at :: "int option"
  created_at :: "int option"
  scope :: "string option"
  token_type :: "string option"
  company_id :: "string option"

type_synonym tokens = "string \<rightharpoonup> credential"

text \<open>
  The functions of the JavaScript engine and of the crypto library that the store calls;
  \<open>None\<close> where the library throws. \<open>aes_256_gcm_open key iv tag ciphertext\<close> stands
  for \<open>createDecipheriv\<close>, \<open>setAuthTag\<close>, \<open>update\<close> and \<open>final\<close>;
  \<open>aes_256_gcm_seal key text\<close> for \<open>randomBytes(16)\<close>, \<open>createCipheriv\<close>,
  \<open>update\<close>, \<open>final\<close> and \<open>getAuthTag\<close>.
\<close>

record engine =
  JSON_parse_blob :: "string \<Rightarrow> encrypted_data option"
  JSON_stringify_blob :: "encrypted_data \<Rightarrow> string"
  JSON_parse_tokens :: "string \<Rightarrow> tokens option"
  JSON_stringify_tokens :: "tokens \<Rightarrow> string"
  aes_256_gcm_open :: "string \<Rightarrow> string \<Rightarrow> string \<Rightarrow> string \<Rightarrow> string option"
  aes_256_gcm_seal :: "string \<Rightarrow> string \<Rightarrow> encrypted_data option"
  randomBytes32 :: string

definition readFile :: "disk_file \<Rightarrow> storage_error + string" where
  "readFile f =
     (case f of Missing \<Rightarrow> Inl (Errno ''ENOENT'') | Failing c \<Rightarrow> Inl (Errno c)
      | Content s \<Rightarrow> Inr s)"

definition getOrCreateKey :: "engine \<Rightarrow> storage \<Rightarrow> (storage_error + string) \<times> storage" where
  "getOrCreateKey eng st =
     (case encryptionKey st of
        Some k \<Rightarrow> (Inr k, st)
      | None \<Rightarrow>
          (case readFile (key_file st) of
             Inr keyData \<Rightarrow> (Inr keyData, st\<lparr>encryptionKey := Some keyData\<rparr>)
           | Inl error \<Rightarrow>
               if error = Errno ''ENOENT'' then
                 (let st1 = st\<lparr>encryptionKey := Some (randomBytes32 eng)\<rparr>
                  in case write_error st of
                       Some c \<Rightarrow> (Inl (Errno c), st1)
                     | None \<Rightarrow>
                         (Inr (randomBytes32 eng), st1\<lparr>key_file := Content (randomBytes32 eng)\<rparr>))
               else (Inl error, st)))"

definition encrypt :: "engine \<Rightarrow> string \<Rightarrow> string \<Rightarrow> storage_error + encrypted_data" where
  "encrypt eng key text =
     (case aes_256_gcm_seal eng key text of None \<Rightarrow> Inl CryptoError | Some d \<Rightarrow> Inr d)"

definition decrypt :: "engine \<Rightarrow> string \<Rightarrow> encrypted_data \<Rightarrow> storage_error + string" where
  "decrypt eng key encryptedData =
     (case aes_256_gcm_open eng key (iv encryptedData) (authTag encryptedData)
             (encrypted encryptedData) of
        None \<Rightarrow> Inl CryptoError
      | Some decrypted \<Rightarrow> Inr decrypted)"

text \<open>The \<open>try\<close> block of \<open>loadSecureTokens\<close>: the first step that throws ends it.\<close>

definition load_try :: "engine \<Rightarrow> storage \<Rightarrow> (storage_error + tokens) \<times> storage" where
  "load_try eng st =
     (case getOrCreateKey eng st of
        (Inl error, st1) \<Rightarrow> (Inl error, st1)
      | (Inr key, st1) \<Rightarrow>
          (case readFile (token_file st1) of
             Inl error \<Rightarrow> (Inl error, st1)
           | Inr encryptedData \<Rightarrow>
               (case JSON_parse_blob eng encryptedData of
                  None \<Rightarrow> (Inl SyntaxError, st1)
                | Some parsed \<Rightarrow>
                    (case decrypt eng key parsed of
                       Inl error \<Rightarrow> (Inl error, st1)
                     | Inr decrypted \<Rightarrow>
                         (case JSON_parse_tokens eng decrypted of
                            None \<Rightarrow> (Inl SyntaxError, st1)
                          | Some t \<Rightarrow> (Inr t, st1))))))"

text \<open>
  \<open>loadSecureTokens\<close> with its \<open>catch\<close>: both branches of the handler return \<open>{}\<close>, the
  second after a line on the console.
\<close>

definition loadSecureTokens :: "engine \<Rightarrow> storage \<Rightarrow> (storage_error + tokens) \<times> storage" where
  "loadSecureTokens eng st =
     (case load_try eng st of
        (Inr t, st1) \<Rightarrow> (Inr t, st1)
      | (Inl error, st1) \<Rightarrow>
          if error = Errno ''ENOENT'' then (Inr Map.empty, st1)
          else (Inr Map.empty, st1))"

definition saveSecureTokens :: "engine \<Rightarrow> tokens \<Rightarrow> storage \<Rightarrow> (storage_error + unit) \<times> storage" where
  "saveSecureTokens eng t st =
     (case getOrCreateKey eng st of
        (Inl error, st1) \<Rightarrow> (Inl error, st1)
      | (Inr key, st1) \<Rightarrow>
          (case encrypt eng key (JSON_stringify_tokens eng t) of
             Inl error \<Rightarrow> (Inl error, st1)
           | Inr e \<Rightarrow>
               (case write_error st1 of
                  Some c \<Rightarrow> (Inl (Errno c), st1)
                | None \<Rightarrow> (Inr (), st1\<lparr>token_file := Content (JSON_stringify_blob eng e)\<rparr>))))"

text \<open>What the token endpoint (or the caller) hands to \<open>storeTokenSecurely\<close>.\<close>

record token_data =
  td_access_token :: "string option"
  td_refresh_token :: "string option"
  td_expires_in :: "int option"
  td_created_at :: "int option"
  td_scope :: "string option"
  td_token_type :: "string option"
  td_company_id :: "string option"

definition storeTokenSecurely ::
  "engine \<Rightarrow> nat \<Rightarrow> string \<Rightarrow> token_data \<Rightarrow> storage \<Rightarrow> (storage_error + credential) \<times> storage" where
  "storeTokenSecurely eng now provider tokenData st =
     (case loadSecureTokens eng st of
        (Inl error, st1) \<Rightarrow> (Inl error, st1)
      | (Inr t, st1) \<Rightarrow>
          (let expiresAt = int now +
                 (case td_expires_in tokenData of
                    None \<Rightarrow> 3600 | Some n \<Rightarrow> if n = 0 then 3600 else n) * 1000;
               entry = \<lparr>access_token = td_access_token tokenData,
                        refresh_token = td_refresh_token tokenData,
                        expires_at = Some expiresAt,
                        created_at = (case td_created_at tokenData of
                                        None \<Rightarrow> Some (int now)
                                      | Some c \<Rightarrow> if c = 0 then Some (int now) else Some c),
                        scope = td_scope tokenData,
                        token_type = (if truthy (td_token_type tokenData)
                                      then td_token_type tokenData else Some ''Bearer''),
                        company_id = td_company_id tokenData\<rparr>
           in case saveSecureTokens eng (t(provider \<mapsto> entry)) st1 of
                (Inl error, st2) \<Rightarrow> (Inl error, st2)
              | (Inr u, st2) \<Rightarrow> (Inr entry, st2)))"

definition getStoredToken ::
  "engine \<Rightarrow> string \<Rightarrow> storage \<Rightarrow> (storage_error + credential option) \<times> storage" where
  "getStoredToken eng provider st =
     (case loadSecureTokens eng st of
        (Inl error, st1) \<Rightarrow> (Inl error, st1)
      | (Inr t, st1) \<Rightarrow> (Inr (t provider), st1))"

text \<open>
  A stand-in for the engine in concrete runs. It knows one key, one blob and one token map:
  the file text \<open>{blob}\<close> parses to the one encrypted record, which opens under the key
  \<open>key\<close> to the text \<open>{freee}\<close>, which parses to a map with a freee credential.
  Everything else is rejected, as a corrupt input is by the real library.
\<close>

definition stored_credential :: credential where
  "stored_credential =
     \<lparr>access_token = Some ''A1'', refresh_token = Some ''R1'', expires_at = Some 3600000,
      created_at = Some 0, scope = None, token_type = Some ''Bearer'', company_id = None\<rparr>"

definition toy_engine :: engine where
  "toy_engine =
     \<lparr>JSON_parse_blob = (\<lambda>s. if s = ''{blob}''
          then Some \<lparr>encrypted = ''c1'', iv = ''i1'', authTag = ''t1''\<rparr> else None),
      JSON_stringify_blob = (\<lambda>d. ''{blob}''),
      JSON_parse_tokens = (\<lambda>s. if s = ''{freee}''
          then Some [''freee'' \<mapsto> stored_credential] else None),
      JSON_stringify_tokens = (\<lambda>t. ''{freee}''),
      aes_256_gcm_open = (\<lambda>k i t c.
          if k = ''key'' \<and> i = ''i1'' \<and> t = ''t1'' \<and> c = ''c1'' then Some ''{freee}'' else None),
      aes_256_gcm_seal = (\<lambda>k text. if k = ''key''
          then Some \<lparr>encrypted = ''c1'', iv = ''i1'', authTag = ''t1''\<rparr> else None),
      randomBytes32 = ''key''\<rparr>"

section \<open>Token lifecycle manager (src/services/tokenManager.js)\<close>

text \<open>
  The module's two maps, the credential store behind them, and one observation added by
  the model: \<open>refreshes\<close> lists the providers whose refresh function has been entered.
\<close>

record manager =
  cachedTokens :: "string \<rightharpoonup> string"
  tokenExpiresAt :: "string \<rightharpoonup> int"
  disk :: storage
  refreshes :: "string list"

text \<open>
  What the manager reads from outside: \<open>process.env\<close>, the engine of the credential store,
  the token endpoint (the response to a POST with the given form parameters),
  \<open>response.json()\<close> (\<open>None\<close> when it throws) and the reading of \<open>Date.now()\<close> inside
  \<open>storeTokenSecurely\<close>.
\<close>

record outside =
  process_env :: "string \<rightharpoonup> string"
  store_engine :: engine
  token_endpoint :: "(string \<times> string) list \<Rightarrow> response"
  response_json :: "string \<Rightarrow> token_data option"
  store_clock :: nat

datatype auth_error = Error string | StorageError storage_error | JsonError

definition REFRESH_BUFFER_SECONDS :: int where
  "REFRESH_BUFFER_SECONDS = 300"

definition refreshFreeeToken :: "outside \<Rightarrow> manager \<Rightarrow> (auth_error + string option) \<times> manager" where
  "refreshFreeeToken out st0 =
     (let st = st0\<lparr>refreshes := refreshes st0 @ [''freee'']\<rparr> in
      if \<not> truthy (process_env out ''FREEE_CLIENT_ID'') \<or>
         \<not> truthy (process_env out ''FREEE_CLIENT_SECRET'') then
        (Inl (Error ''FREEE_CLIENT_ID and FREEE_CLIENT_SECRET must be set in environment variables''), st)
      else
        (case getStoredToken (store_engine out) ''freee'' (disk st) of
           (Inl error, d1) \<Rightarrow> (Inl (StorageError error), st\<lparr>disk := d1\<rparr>)
         | (Inr storedToken, d1) \<Rightarrow>
             if \<not> (case storedToken of None \<Rightarrow> False | Some c \<Rightarrow> truthy (refresh_token c)) then
               (Inl (Error ''No refresh token available for freee. Please authenticate first.''),
                st\<lparr>disk := d1\<rparr>)
             else
               (let params =
                      [(''grant_type'', ''refresh_token''),
                       (''refresh_token'', the (refresh_token (the storedToken))),
                       (''client_id'', the (process_env out ''FREEE_CLIENT_ID'')),
                       (''client_secret'', the (process_env out ''FREEE_CLIENT_SECRET'')),
                       (''redirect_uri'',
                          if truthy (process_env out ''FREEE_REDIRECT_URI'')
                          then the (process_env out ''FREEE_REDIRECT_URI'')
                          else ''urn:ietf:wg:oauth:2.0:oob'')];
                    response = token_endpoint out params
                in if \<not> ok response then
                     (Inl (Error (''Failed to refresh freee token: '' @ string_of_nat (status response)
                                  @ '' - '' @ body response)),
                      st\<lparr>disk := d1\<rparr>)
                   else
                     (case response_json out (body response) of
                        None \<Rightarrow> (Inl JsonError, st\<lparr>disk := d1\<rparr>)
                      | Some tokenData \<Rightarrow>
                          (case storeTokenSecurely (store_engine out) (store_clock out) ''freee''
                                  tokenData d1 of
                             (Inl error, d2) \<Rightarrow> (Inl (StorageError error), st\<lparr>disk := d2\<rparr>)
                           | (Inr savedToken, d2) \<Rightarrow>
                               (Inr (access_token savedToken),
                                st\<lparr>disk := d2,
                                   cachedTokens := (cachedTokens st)(''freee'' := access_token savedToken),
                                   tokenExpiresAt :=
                                     (tokenExpiresAt st)(''freee'' := expires_at savedToken)\<rparr>))))))"

definition refreshQuickBooksToken ::
  "outside \<Rightarrow> manager \<Rightarrow> (auth_error + string option) \<times> manager" where
  "refreshQuickBooksToken out st0 =
     (let st = st0\<lparr>refreshes := refreshes st0 @ [''quickbooks'']\<rparr> in
      if \<not> truthy (process_env out ''QB_CLIENT_ID'') \<or>
         \<not> truthy (process_env out ''QB_CLIENT_SECRET'') then
        (Inl (Error ''QB_CLIENT_ID and QB_CLIENT_SECRET must be set in environment variables''), st)
      else
        (case getStoredToken (store_engine out) ''quickbooks'' (disk st) of
           (Inl error, d1) \<Rightarrow> (Inl (StorageError error), st\<lparr>disk := d1\<rparr>)
         | (Inr storedToken, d1) \<Rightarrow>
             if \<not> (case storedToken of None \<Rightarrow> False | Some c \<Rightarrow> truthy (refresh_token c)) then
               (Inl (Error ''No refresh token available for QuickBooks. Please authenticate first.''),
                st\<lparr>disk := d1\<rparr>)
             else
               (Inl (Error ''QuickBooks token refresh not yet implemented''), st\<lparr>disk := d1\<rparr>)))"

text \<open>\<open>requestToken\<close> resolves with the pair \<open>{token, expiresIn}\<close>.\<close>

definition requestToken ::
  "outside \<Rightarrow> string \<Rightarrow> manager \<Rightarrow> (auth_error + string option \<times> int) \<times> manager" where
  "requestToken out provider st =
     (if provider = ''freee'' then
        (if truthy (process_env out ''FREEE_ACCESS_TOKEN'') then
           (Inr (process_env out ''FREEE_ACCESS_TOKEN'', 3600), st)
         else
           (case refreshFreeeToken out st of
              (Inl error, st1) \<Rightarrow> (Inl error, st1)
            | (Inr token, st1) \<Rightarrow> (Inr (token, 3600), st1)))
      else if provider = ''quickbooks'' then
        (if truthy (process_env out ''QB_ACCESS_TOKEN'') then
           (Inr (process_env out ''QB_ACCESS_TOKEN'', 3600), st)
         else
           (case refreshQuickBooksToken out st of
              (Inl error, st1) \<Rightarrow> (Inl error, st1)
            | (Inr token, st1) \<Rightarrow> (Inr (token, 3600), st1)))
      else (Inl (Error (''Unknown provider: '' @ provider)), st))"

text \<open>
  \<open>getAccessToken\<close> after its development-mode block: the cache test, then
  \<open>requestToken\<close>. A cached expiry is truthy when it is there and not 0.
\<close>

definition cached_or_request ::
  "outside \<Rightarrow> nat \<Rightarrow> string \<Rightarrow> manager \<Rightarrow> (auth_error + string option) \<times> manager" where
  "cached_or_request out now provider st =
     (if truthy (cachedTokens st provider) \<and>
         (case tokenExpiresAt st provider of None \<Rightarrow> False | Some e \<Rightarrow> e \<noteq> 0) \<and>
         the (tokenExpiresAt st provider) - REFRESH_BUFFER_SECONDS * 1000 > int now then
        (Inr (cachedTokens st provider), st)
      else
        (case requestToken out provider st of
           (Inl error, st1) \<Rightarrow> (Inl error, st1)
         | (Inr (token, expiresIn), st1) \<Rightarrow>
             (Inr token,
              st1\<lparr>cachedTokens := (cachedTokens st1)(provider := token),
                  tokenExpiresAt := (tokenExpiresAt st1)(provider \<mapsto> int now + expiresIn * 1000)\<rparr>)))"

definition getAccessToken ::
  "outside \<Rightarrow> nat \<Rightarrow> string \<Rightarrow> manager \<Rightarrow> (auth_error + string option) \<times> manager" where
  "getAccessToken out now provider st =
     (if process_env out ''NODE_ENV'' = Some ''development'' \<and> \<not> truthy (cachedTokens st provider) then
        (if provider = ''freee'' \<and> truthy (process_env out ''FREEE_ACCESS_TOKEN'') then
           (Inr (process_env out ''FREEE_ACCESS_TOKEN''),
            st\<lparr>cachedTokens := (cachedTokens st)(provider := process_env out ''FREEE_ACCESS_TOKEN''),
               tokenExpiresAt := (tokenExpiresAt st)(provider \<mapsto> int now + 3600 * 1000)\<rparr>)
         else if provider = ''quickbooks'' \<and> truthy (process_env out ''QB_ACCESS_TOKEN'') then
           (Inr (process_env out ''QB_ACCESS_TOKEN''),
            st\<lparr>cachedTokens := (cachedTokens st)(provider := process_env out ''QB_ACCESS_TOKEN''),
               tokenExpiresAt := (tokenExpiresAt st)(provider \<mapsto> int now + 3600 * 1000)\<rparr>)
         else cached_or_request out now provider st)
      else cached_or_request out now provider st)"

text \<open>
  Concrete surroundings for runs of the manager: client credentials in the environment, the
  stand-in engine, a token endpoint that answers every request with a new credential, and
  a manager at clock reading 0 whose cached freee token \<open>A1\<close> expires in four minutes.
  \<open>static_outside\<close> also has a static access token in the environment.
\<close>

definition example_outside :: outside where
  "example_outside =
     \<lparr>process_env = [''FREEE_CLIENT_ID'' \<mapsto> ''id'', ''FREEE_CLIENT_SECRET'' \<mapsto> ''secret''],
      store_engine = toy_engine,
      token_endpoint = (\<lambda>params. \<lparr>status = 200, headers = (\<lambda>h. None), body = ''{token}''\<rparr>),
      response_json = (\<lambda>s. if s = ''{token}''
         then Some \<lparr>td_access_token = Some ''A2'', td_refresh_token = Some ''R2'',
                    td_expires_in = Some 86400, td_created_at = None, td_scope = None,
                    td_token_type = None, td_company_id = None\<rparr>
         else None),
      store_clock = 1000\<rparr>"

definition static_outside :: outside where
  "static_outside =
     example_outside\<lparr>process_env :=
       [''FREEE_CLIENT_ID'' \<mapsto> ''id'', ''FREEE_CLIENT_SECRET'' \<mapsto> ''secret'',
        ''FREEE_ACCESS_TOKEN'' \<mapsto> ''A1'']\<rparr>"

definition example_manager :: manager where
  "example_manager =
     \<lparr>cachedTokens = [''freee'' \<mapsto> ''A1''], tokenExpiresAt = [''freee'' \<mapsto> 240000],
      disk = \<lparr>encryptionKey = None, key_file = Content ''key'', token_file = Content ''{blob}'',
              write_error = None\<rparr>,
      refreshes = []\<rparr>"

section \<open>Request cache (src/services/cache.js)\<close>

text \<open>
  JavaScript values, as far as the cache meets them. An object is the list of its own
  properties in the order they were added, with keys that are all different.
\<close>

datatype js =
    Undefined
  | Null
  | Bool bool
  | Num real
  | Str string
  | Arr "js list"
  | Obj "(string \<times> js) list"

text \<open>
  The order in which the engine enumerates the own keys of an object (\<open>Object.keys\<close>,
  \<open>JSON.stringify\<close>): the array indices first, in numeric order, then the other keys in
  the order they were added. An array index is the canonical decimal text of a number
  below \<open>2^32 - 1\<close>.
\<close>

definition is_array_index :: "string \<Rightarrow> bool" where
  "is_array_index k =
     (k \<noteq> [] \<and> list_all is_digit k \<and> (hd k = CHR ''0'' \<longrightarrow> k = ''0'') \<and>
      digits_value k < 4294967295)"

definition own_keys :: "string list \<Rightarrow> string list" where
  "own_keys ks =
     sort_key digits_value (filter is_array_index ks) @ filter (\<lambda>k. \<not> is_array_index k) ks"

definition Object_keys :: "(string \<times> js) list \<Rightarrow> string list" where
  "Object_keys obj = own_keys (map fst obj)"

text \<open>\<open>obj[key]\<close>, read and written.\<close>

definition get_prop :: "(string \<times> js) list \<Rightarrow> string \<Rightarrow> js" where
  "get_prop obj key = (case map_of obj key of None \<Rightarrow> Undefined | Some v \<Rightarrow> v)"

definition set_prop :: "(string \<times> js) list \<Rightarrow> string \<Rightarrow> js \<Rightarrow> (string \<times> js) list" where
  "set_prop obj key v =
     (if key \<in> set (map fst obj)
      then map (\<lambda>(k, old). if k = key then (k, v) else (k, old)) obj
      else obj @ [(key, v)])"

definition own_properties :: "(string \<times> js) list \<Rightarrow> (string \<times> js) list" where
  "own_properties obj = map (\<lambda>k. (k, get_prop obj k)) (Object_keys obj)"

text \<open>
  The library functions the cache calls: the SHA-256 digest in hexadecimal,
  \<open>JSON.stringify\<close> of an object given by its properties in enumeration order,
  \<open>JSON.stringify\<close> of a value (\<open>None\<close> when it throws or gives \<open>undefined\<close>) and
  \<open>JSON.parse\<close> (\<open>None\<close> when it throws).
\<close>

record cache_engine =
  sha256_hex :: "string \<Rightarrow> string"
  JSON_stringify_object :: "(string \<times> js) list \<Rightarrow> string"
  JSON_stringify_value :: "js \<Rightarrow> string option"
  JSON_parse_value :: "string \<Rightarrow> js option"

text \<open>
  The \<open>reduce\<close> of \<open>generateCacheKey\<close> over the sorted keys. The default \<open>sort()\<close>
  compares strings by their code units, here the order of character lists.
\<close>

definition sortedParams :: "(string \<times> js) list \<Rightarrow> (string \<times> js) list" where
  "sortedParams params =
     foldl (\<lambda>acc key.
              if get_prop params key \<noteq> Undefined \<and> get_prop params key \<noteq> Null
              then set_prop acc key (get_prop params key) else acc)
       [] (sort (Object_keys params))"

definition generateCacheKey :: "cache_engine \<Rightarrow> string \<Rightarrow> (string \<times> js) list \<Rightarrow> string" where
  "generateCacheKey eng endpoint params =
     (let paramString = JSON_stringify_object eng (own_properties (sortedParams params))
      in sha256_hex eng (endpoint @ '':'' @ paramString))"

text \<open>
  The two tables. \<open>cache\<close> has \<open>cache_key\<close> as its primary key: a list of rows with
  keys that are all different. \<open>cache_stats\<close> is keyed by endpoint. The statements sent
  to the database are taken to succeed; what the \<open>catch\<close> blocks still see is a
  \<open>JSON.stringify\<close> or \<open>JSON.parse\<close> that fails.
\<close>

record cache_row =
  row_endpoint :: string
  row_data :: string
  row_metadata :: "string option"
  row_created_at :: nat
  row_expires_at :: int
  row_access_count :: nat
  row_last_accessed :: "nat option"

record stats_row =
  hit_count :: nat
  miss_count :: nat
  total_size :: nat
  last_cleared :: "nat option"

record cache_db =
  cache :: "(string \<times> cache_row) list"
  cache_stats :: "string \<rightharpoonup> stats_row"

definition updateCacheStats :: "string \<Rightarrow> bool \<Rightarrow> cache_db \<Rightarrow> cache_db" where
  "updateCacheStats endpoint isHit db =
     db\<lparr>cache_stats := (cache_stats db)(endpoint \<mapsto>
        (case cache_stats db endpoint of
           None \<Rightarrow> \<lparr>hit_count = (if isHit then 1 else 0), miss_count = (if isHit then 0 else 1),
                     total_size = 0, last_cleared = None\<rparr>
         | Some s \<Rightarrow> s\<lparr>hit_count := hit_count s + (if isHit then 1 else 0),
                        miss_count := miss_count s + (if isHit then 0 else 1)\<rparr>))\<rparr>"

text \<open>What \<open>getFromCache\<close> returns on a hit.\<close>

record cache_hit =
  hit_data :: js
  hit_metadata :: "js option"
  cached_at :: nat
  hit_expires_at :: int

definition getFromCache ::
  "cache_engine \<Rightarrow> nat \<Rightarrow> string \<Rightarrow> (string \<times> js) list \<Rightarrow> cache_db \<Rightarrow> cache_hit option \<times> cache_db" where
  "getFromCache eng now endpoint params db =
     (let cacheKey = generateCacheKey eng endpoint params
      in case map_of (filter (\<lambda>(k, r). row_expires_at r > int now) (cache db)) cacheKey of
           Some row \<Rightarrow>
             (let db1 = db\<lparr>cache := map (\<lambda>(k, r).
                            if k = cacheKey
                            then (k, r\<lparr>row_access_count := row_access_count r + 1,
                                       row_last_accessed := Some now\<rparr>)
                            else (k, r)) (cache db)\<rparr>;
                  db2 = updateCacheStats endpoint True db1
              in case JSON_parse_value eng (row_data row) of
                   None \<Rightarrow> (None, db2)
                 | Some d \<Rightarrow>
                     (case row_metadata row of
                        None \<Rightarrow>
                          (Some \<lparr>hit_data = d, hit_metadata = None,
                                 cached_at = row_created_at row,
                                 hit_expires_at = row_expires_at row\<rparr>, db2)
                      | Some ms \<Rightarrow>
                          if ms = [] then
                            (Some \<lparr>hit_data = d, hit_metadata = None,
                                   cached_at = row_created_at row,
                                   hit_expires_at = row_expires_at row\<rparr>, db2)
                          else
                            (case JSON_parse_value eng ms of
                               None \<Rightarrow> (None, db2)
                             | Some m \<Rightarrow>
                                 (Some \<lparr>hit_data = d, hit_metadata = Some m,
                                        cached_at = row_created_at row,
                                        hit_expires_at = row_expires_at row\<rparr>, db2))))
         | None \<Rightarrow> (None, updateCacheStats endpoint False db))"

text \<open>The options of \<open>saveToCache\<close>; a field that is not given is \<open>None\<close>.\<close>

record save_options =
  ttl :: "int option"
  metadata :: "js option"

definition js_truthy :: "js \<Rightarrow> bool" where
  "js_truthy v =
     (v \<noteq> Undefined \<and> v \<noteq> Null \<and> v \<noteq> Bool False \<and> v \<noteq> Num 0 \<and> v \<noteq> Str [])"

definition saveToCache ::
  "cache_engine \<Rightarrow> nat \<Rightarrow> string \<Rightarrow> (string \<times> js) list \<Rightarrow> js \<Rightarrow> save_options \<Rightarrow> cache_db \<Rightarrow>
   bool \<times> cache_db" where
  "saveToCache eng now endpoint params d options db =
     (let ttl_ms = (case ttl options of None \<Rightarrow> 300000 | Some t \<Rightarrow> t);
          meta = (case metadata options of None \<Rightarrow> Null | Some m \<Rightarrow> m);
          cacheKey = generateCacheKey eng endpoint params;
          expiresAt = int now + ttl_ms
      in case JSON_stringify_value eng d of
           None \<Rightarrow> (False, db)
         | Some dataString \<Rightarrow>
             (case (if js_truthy meta then JSON_stringify_value eng meta else Some []) of
                None \<Rightarrow> (False, db)
              | Some ms \<Rightarrow>
                  (let metadataString = (if js_truthy meta then Some ms else None);
                       row = \<lparr>row_endpoint = endpoint, row_data = dataString,
                              row_metadata = metadataString, row_created_at = now,
                              row_expires_at = expiresAt, row_access_count = 0,
                              row_last_accessed = Some now\<rparr>;
                       rows = filter (\<lambda>(k, r). k \<noteq> cacheKey) (cache db) @ [(cacheKey, row)];
                       total = sum_list (map (\<lambda>(k, r). length (row_data r))
                                 (filter (\<lambda>(k, r). row_endpoint r = endpoint) rows))
                   in (True,
                       db\<lparr>cache := rows,
                          cache_stats :=
                            (case cache_stats db endpoint of
                               None \<Rightarrow> cache_stats db
                             | Some s \<Rightarrow> (cache_stats db)(endpoint \<mapsto> s\<lparr>total_size := total\<rparr>))\<rparr>))))"

text \<open>The test of the \<open>reduce\<close> step: the parameter has a value other than \<open>undefined\<close> and \<open>null\<close>.\<close>

definition kept :: "(string \<times> js) list \<Rightarrow> string \<Rightarrow> bool" where
  "kept p k = (get_prop p k \<noteq> Undefined \<and> get_prop p k \<noteq> Null)"

text \<open>
  A stand-in for the library in concrete runs of the cache, for string values only: the
  digest is the text itself, an object is written as its \<open>key:value,\<close> pairs, a string is
  its own JSON text.
\<close>

definition toy_cache_engine :: cache_engine where
  "toy_cache_engine =
     \<lparr>sha256_hex = (\<lambda>s. s),
      JSON_stringify_object =
        (\<lambda>props. concat (map (\<lambda>(k, v). k @ '':'' @ (case v of Str s \<Rightarrow> s | _ \<Rightarrow> ''?'') @ '','') props)),
      JSON_stringify_value = (\<lambda>v. case v of Str s \<Rightarrow> Some s | _ \<Rightarrow> None),
      JSON_parse_value = (\<lambda>s. Some (Str s))\<rparr>"

definition empty_cache :: cache_db where
  "empty_cache = \<lparr>cache = [], cache_stats = Map.empty\<rparr>"


section \<open>Audit log (src/services/auditLog.js)\<close>

text \<open>
  The five fields that \<open>generateAuditHash\<close> reads from the object it is given. A row of
  \<open>audit_log\<close> has them and the other columns; \<open>NULL\<close> is \<open>None\<close>.
\<close>

record audit_content =
  timestamp :: nat
  event_type :: string
  endpoint :: "string option"
  user_id :: "string option"
  action :: "string option"






definition js_of :: "string option \<Rightarrow> js" where
  "js_of x = (case x of None \<Rightarrow> Null | Some s \<Rightarrow> Str s)"

text \<open>
  The object literal that \<open>generateAuditHash\<close> serializes has these five properties, in
  this order; the digest of its JSON text is the hash.
\<close>

definition hashed_object :: "'z audit_content_scheme \<Rightarrow> (string \<times> js) list" where
  "hashed_object entry =
     [(''timestamp'', Num (real (timestamp entry))),
      (''event_type'', Str (event_type entry)),
      (''endpoint'', js_of (endpoint entry)),
      (''user_id'', js_of (user_id entry)),
      (''action'', js_of (action entry))]"

definition generateAuditHash :: "cache_engine \<Rightarrow> 'z audit_content_scheme \<Rightarrow> string" where
  "generateAuditHash eng entry =
     (let content = JSON_stringify_object eng (hashed_object entry)
      in sha256_hex eng content)"








definition protected_fields :: "'z audit_content_scheme \<Rightarrow> audit_content" where
  "protected_fields entry =
     \<lparr>timestamp = timestamp entry, event_type = event_type entry, endpoint = endpoint entry,
      user_id = user_id entry, action = action entry\<rparr>"






section \<open>Properties of the retry controller\<close>

lemma retry_step:
  assumes "fn k w = (Inl (Some e), w')" and "int k < maxRetries opts"
    and "shouldRetry opts (Some e) k"
    and "\<not> isl (fst (notify opts (Some e) (Suc k) (backoff_delay opts rnd k) w'))"
  shows "retry_loop fn opts rnd k lastError w =
         retry_loop fn opts rnd (Suc k) (Some e)
           (sleep (Some (backoff_delay opts rnd k))
              (snd (notify opts (Some e) (Suc k) (backoff_delay opts rnd k) w')))"
proof -
  obtain w2 where n: "notify opts (Some e) (Suc k) (backoff_delay opts rnd k) w' = (Inr (), w2)"
    using assms(4)
    by (cases "notify opts (Some e) (Suc k) (backoff_delay opts rnd k) w'";
        cases "fst (notify opts (Some e) (Suc k) (backoff_delay opts rnd k) w')") auto
  show ?thesis
    by (subst retry_loop.simps) (use assms(2,3) in \<open>simp add: assms(1) n Let_def\<close>)
qed

lemma retry_last:
  assumes "fn k w = (Inl (Some e), w')" and "int k = maxRetries opts"
  shows "retry_loop fn opts rnd k lastError w = (Inl (RetryError e k), w')"
  by (subst retry_loop.simps) (use assms(2) in \<open>simp add: assms(1) after_loop_def\<close>)

text \<open>
  C1 (as the code has it). With \<open>maxRetries = 3\<close>, a unit of work that fails on every
  invocation with a value other than \<open>undefined\<close> and \<open>null\<close>, a \<open>shouldRetry\<close> that
  always returns true and an \<open>onRetry\<close> callback, if there is one, that does not throw:
  \<open>retryWithBackoff\<close> runs the work for the attempts 0, 1, 2 and 3, once each, every
  attempt in the world that the attempt before it left, after the callback and the backoff
  sleep; it then rejects, in the world the fourth invocation left, with the wrapping error
  whose \<open>attempts\<close> is 3 and whose \<open>cause\<close> is the error of that fourth invocation.
\<close>

theorem retry_exhausts_after_four_invocations:
  assumes fails: "\<forall>k w. \<exists>e. fst (fn k w) = Inl (Some e)"
    and always: "\<forall>e k. shouldRetry opts e k"
    and quiet: "\<forall>f e n d w. onRetry opts = Some f \<longrightarrow> \<not> isl (fst (f e n d w))"
    and three: "maxRetries opts = 3"
  shows "\<exists>e0 w0 e1 w1 e2 w2 e3 w3.
           fn 0 w = (Inl (Some e0), w0) \<and>
           fn 1 (sleep (Some (backoff_delay opts rnd 0))
                   (snd (notify opts (Some e0) 1 (backoff_delay opts rnd 0) w0))) =
             (Inl (Some e1), w1) \<and>
           fn 2 (sleep (Some (backoff_delay opts rnd 1))
                   (snd (notify opts (Some e1) 2 (backoff_delay opts rnd 1) w1))) =
             (Inl (Some e2), w2) \<and>
           fn 3 (sleep (Some (backoff_delay opts rnd 2))
                   (snd (notify opts (Some e2) 3 (backoff_delay opts rnd 2) w2))) =
             (Inl (Some e3), w3) \<and>
           retryWithBackoff fn opts rnd w = (Inl (RetryError e3 3), w3)"
proof -
  have fail: "\<And>k w. \<exists>e w'. fn k w = (Inl (Some e), w')"
  proof -
    fix k w
    from fails obtain e where "fst (fn k w) = Inl (Some e)" by blast
    then show "\<exists>e w'. fn k w = (Inl (Some e), w')" by (cases "fn k w") auto
  qed
  have nt: "\<And>e n d w. \<not> isl (fst (notify opts e n d w))"
    using quiet by (auto simp: notify_def split: option.splits)
  let ?next = "\<lambda>k e w'. sleep (Some (backoff_delay opts rnd k))
      (snd (notify opts (Some e) (Suc k) (backoff_delay opts rnd k) w'))"
  from fail obtain e0 w0 where f0: "fn 0 w = (Inl (Some e0), w0)" by blast
  from fail obtain e1 w1 where f1: "fn (Suc 0) (?next 0 e0 w0) = (Inl (Some e1), w1)" by blast
  from fail obtain e2 w2 where f2: "fn (Suc (Suc 0)) (?next (Suc 0) e1 w1) = (Inl (Some e2), w2)"
    by blast
  from fail obtain e3 w3 where
    f3: "fn (Suc (Suc (Suc 0))) (?next (Suc (Suc 0)) e2 w2) = (Inl (Some e3), w3)"
    by blast
  have s0: "retry_loop fn opts rnd 0 None w =
      retry_loop fn opts rnd (Suc 0) (Some e0) (?next 0 e0 w0)"
    by (rule retry_step[where fn = fn and k = 0 and w = w, OF f0])
       (simp_all add: three always nt)
  have s1: "retry_loop fn opts rnd (Suc 0) (Some e0) (?next 0 e0 w0) =
      retry_loop fn opts rnd (Suc (Suc 0)) (Some e1) (?next (Suc 0) e1 w1)"
    by (rule retry_step[where fn = fn and k = "Suc 0" and w = "?next 0 e0 w0", OF f1])
       (simp_all add: three always nt)
  have s2: "retry_loop fn opts rnd (Suc (Suc 0)) (Some e1) (?next (Suc 0) e1 w1) =
      retry_loop fn opts rnd (Suc (Suc (Suc 0))) (Some e2) (?next (Suc (Suc 0)) e2 w2)"
    by (rule retry_step[where fn = fn and k = "Suc (Suc 0)" and w = "?next (Suc 0) e1 w1", OF f2])
       (simp_all add: three always nt)
  have s3: "retry_loop fn opts rnd (Suc (Suc (Suc 0))) (Some e2) (?next (Suc (Suc 0)) e2 w2) =
      (Inl (RetryError e3 (Suc (Suc (Suc 0)))), w3)"
    by (rule retry_last[where fn = fn and k = "Suc (Suc (Suc 0))"
          and w = "?next (Suc (Suc 0)) e2 w2", OF f3])
       (simp add: three)
  have r: "retryWithBackoff fn opts rnd w = (Inl (RetryError e3 (Suc (Suc (Suc 0)))), w3)"
    unfolding retryWithBackoff_def s0 s1 s2 s3 ..
  show ?thesis
    unfolding One_nat_def numeral_2_eq_2 numeral_3_eq_3
    using f0 f1 f2 f3 r by blast
qed

theorem retry_exhausts_after_four_invocations_witness:
  "retryWithBackoff failing_work default_options (\<lambda>k. 0) \<lparr>slept = [], calls = 0\<rparr> =
     (Inl (RetryError 3 3), \<lparr>slept = [Some 500, Some 1000, Some 2000], calls = 4\<rparr>)"
proof -
  have h1: "\<forall>k w. \<exists>e. fst (failing_work k w) = Inl (Some e)"
    by (simp add: failing_work_def)
  have h2: "\<forall>e k. shouldRetry (default_options :: (nat, counted) retry_options) e k"
    and h3: "\<forall>f e n d w. onRetry (default_options :: (nat, counted) retry_options) = Some f
        \<longrightarrow> \<not> isl (fst (f e n d w))"
    and h4: "maxRetries (default_options :: (nat, counted) retry_options) = 3"
    by (simp_all add: default_options_def)
  have d: "backoff_delay (default_options :: (nat, counted) retry_options) (\<lambda>k. 0) 0 = 500"
    "backoff_delay (default_options :: (nat, counted) retry_options) (\<lambda>k. 0) (Suc 0) = 1000"
    "backoff_delay (default_options :: (nat, counted) retry_options) (\<lambda>k. 0) 2 = 2000"
    by (simp_all add: backoff_delay_def default_options_def)
  have n: "\<And>e k dl w. notify (default_options :: (nat, counted) retry_options) e k dl w = (Inr (), w)"
    by (simp add: notify_def default_options_def)
  note T = retry_exhausts_after_four_invocations
      [OF h1 h2 h3 h4, where rnd = "\<lambda>k. 0" and w = "\<lparr>slept = [], calls = 0\<rparr>"]
  have fw: "failing_work = (\<lambda>attempt w. (Inl (Some attempt), w\<lparr>calls := Suc (calls w)\<rparr>))"
    by (simp add: fun_eq_iff failing_work_def)
  from T show ?thesis
    by (auto simp: d n fw sleep_def)
qed

text \<open>
  The claim as it is written fails on the code when an \<open>onRetry\<close> callback throws: the
  loop has no handler around the callback, so the work is invoked once and the run rejects
  with the callback's error, not with the wrapping error.
\<close>

theorem throwing_onRetry_ends_the_run:
  "retryWithBackoff failing_work
     (default_options\<lparr>onRetry := Some (\<lambda>error n delay w. (Inl (Some 99), w))\<rparr>)
     (\<lambda>k. 0) \<lparr>slept = [], calls = 0\<rparr> =
   (Inl (Thrown (Some 99)), \<lparr>slept = [], calls = 1\<rparr>)"
  by (simp add: retryWithBackoff_def retry_loop.simps failing_work_def default_options_def
      notify_def Let_def)

text \<open>
  A unit of work that rejects with \<open>undefined\<close> is also run four times, but the run ends
  in the \<open>TypeError\<close> of \<open>lastError.message\<close>, not in the wrapping error.
\<close>

lemma nullish_rejection_ends_in_TypeError:
  "retryWithBackoff (\<lambda>attempt w. (Inl None :: nat option + unit, w\<lparr>calls := Suc (calls w)\<rparr>))
     default_options (\<lambda>k. 0) \<lparr>slept = [], calls = 0\<rparr> =
   (Inl TypeError, \<lparr>slept = [Some 500, Some 1000, Some 2000], calls = 4\<rparr>)"
  by (simp add: retryWithBackoff_def retry_loop.simps default_options_def notify_def Let_def
      backoff_delay_def sleep_def after_loop_def)

section \<open>Properties of the rate limiter\<close>

lemma refill_fields [simp]:
  "maxTokens (refill now b) = maxTokens b"
  "refillRate (refill now b) = refillRate b"
  "lastRefill (refill now b) = now"
  by (simp_all add: refill_def Let_def)

lemma tryAcquire_fields [simp]:
  "maxTokens (snd (tryAcquire now b)) = maxTokens b"
  "refillRate (snd (tryAcquire now b)) = refillRate b"
  "lastRefill (snd (tryAcquire now b)) = now"
  by (simp_all add: tryAcquire_def Let_def)

lemma refill_inv:
  assumes "bucket_inv b" "0 \<le> refillRate b" "lastRefill b \<le> now"
  shows "bucket_inv (refill now b)"
proof -
  have "0 \<le> (real now - real (lastRefill b)) / 1000 * refillRate b"
    using assms(2,3) by simp
  then show ?thesis
    using assms(1) by (simp add: bucket_inv_def refill_def Let_def)
qed

lemma tryAcquire_inv:
  assumes "bucket_inv b" "0 \<le> refillRate b" "lastRefill b \<le> now"
  shows "bucket_inv (snd (tryAcquire now b))"
  using refill_inv[OF assms] by (auto simp: tryAcquire_def Let_def bucket_inv_def)

lemma chronological_append:
  "chronological t (xs @ ys) = (chronological t xs \<and> chronological (last (t # xs)) ys)"
  by (induction xs arbitrary: t) auto

lemma chronological_last: "chronological t xs \<Longrightarrow> t \<le> last (t # xs)"
  by (induction xs arbitrary: t) (auto intro: order_trans)

lemma chronological_mono: "t' \<le> t \<Longrightarrow> chronological t xs \<Longrightarrow> chronological t' xs"
  by (cases xs) auto

lemma others_run_fields [simp]:
  "maxTokens (others_run ts b) = maxTokens b"
  "refillRate (others_run ts b) = refillRate b"
  by (induction ts arbitrary: b) simp_all

lemma others_run_inv:
  assumes "bucket_inv b" "0 \<le> refillRate b" "lastRefill b \<le> t" "chronological t ts"
  shows "bucket_inv (others_run ts b) \<and> lastRefill (others_run ts b) \<le> last (t # ts)"
  using assms
proof (induction ts arbitrary: b t)
  case Nil
  then show ?case by simp
next
  case (Cons x xs)
  have le: "lastRefill b \<le> x" using Cons.prems(3,4) by simp
  have "bucket_inv (snd (tryAcquire x b))"
    using tryAcquire_inv[OF Cons.prems(1,2) le] .
  from Cons.IH[OF this, of x] Cons.prems(2,4) show ?case by simp
qed

lemma acquire_fields [simp]:
  "maxTokens (state (acquire env b w)) = maxTokens b"
  "refillRate (state (acquire env b w)) = refillRate b"
  by (induction env b w rule: acquire.induct; simp add: Let_def)+

lemma acquire_inv:
  assumes "bucket_inv b" "0 \<le> refillRate b" "lastRefill b \<le> t"
    "chronological t (env_readings env)"
  shows "bucket_inv (state (acquire env b w)) \<and>
         lastRefill (state (acquire env b w)) \<le> last (t # env_readings env)"
  using assms
proof (induction env b w arbitrary: t rule: acquire.induct)
  case (1 b w)
  then show ?case by simp
next
  case (2 others now env b w)
  let ?b0 = "others_run others b"
  let ?b1 = "refill now ?b0"
  from "2.prems"(4) have c1: "chronological t others"
    and c2: "last (t # others) \<le> now"
    and c3: "chronological now (env_readings env)"
    by (simp_all add: chronological_append)
  have i0: "bucket_inv ?b0" and l0: "lastRefill ?b0 \<le> last (t # others)"
    using others_run_inv[OF "2.prems"(1,2,3) c1] by simp_all
  have l0': "lastRefill ?b0 \<le> now" using l0 c2 by simp
  have r0: "0 \<le> refillRate ?b0" using "2.prems"(2) by simp
  have i1: "bucket_inv ?b1" using refill_inv[OF i0 r0 l0'] .
  have lst: "last (t # env_readings ((others, now) # env)) = last (now # env_readings env)"
    by simp
  show ?case
  proof (cases "tokens ?b1 \<ge> 1")
    case True
    have "bucket_inv (?b1\<lparr>tokens := tokens ?b1 - 1\<rparr>)"
      using i1 True by (simp add: bucket_inv_def)
    moreover have "now \<le> last (now # env_readings env)"
      using chronological_last[OF c3] .
    ultimately show ?thesis unfolding lst using True by (simp add: Let_def)
  next
    case False
    have r1: "0 \<le> refillRate ?b1" using "2.prems"(2) by simp
    have l1: "lastRefill ?b1 \<le> now" by simp
    from "2.IH"[OF refl False i1 r1 l1 c3] show ?thesis
      unfolding lst using False by (simp add: Let_def)
  qed
qed

lemma apply_op_fields [simp]:
  "maxTokens (apply_op x b) = maxTokens b"
  "refillRate (apply_op x b) = refillRate b"
  by (cases x; simp)+

lemma apply_op_inv:
  assumes "bucket_inv b" "0 \<le> refillRate b" "lastRefill b \<le> t"
    "chronological t (op_readings x)"
  shows "bucket_inv (apply_op x b) \<and> lastRefill (apply_op x b) \<le> last (t # op_readings x)"
proof (cases x)
  case (Refill now)
  then have "lastRefill b \<le> now" using assms(3,4) by simp
  then show ?thesis using Refill refill_inv[OF assms(1,2)] by simp
next
  case (TryAcquire now)
  then have "lastRefill b \<le> now" using assms(3,4) by simp
  then show ?thesis using TryAcquire tryAcquire_inv[OF assms(1,2)] by simp
next
  case (Acquire env)
  then have c: "chronological t (env_readings env)" using assms(4) by simp
  show ?thesis
    using acquire_inv[OF assms(1,2,3) c, of "\<lparr>slept = []\<rparr>"] Acquire by simp
qed

lemma run_ops_inv:
  assumes "bucket_inv b" "0 \<le> refillRate b" "lastRefill b \<le> t"
    "chronological t (concat (map op_readings ops))"
  shows "bucket_inv (run_ops ops b)"
  using assms
proof (induction ops arbitrary: b t)
  case Nil
  then show ?case by simp
next
  case (Cons x xs)
  from Cons.prems(4) have c1: "chronological t (op_readings x)"
    and c2: "chronological (last (t # op_readings x)) (concat (map op_readings xs))"
    by (simp_all add: chronological_append)
  have i: "bucket_inv (apply_op x b)"
    and l: "lastRefill (apply_op x b) \<le> last (t # op_readings x)"
    using apply_op_inv[OF Cons.prems(1,2,3) c1] by simp_all
  have r: "0 \<le> refillRate (apply_op x b)" using Cons.prems(2) by simp
  from Cons.IH[OF i r l c2] show ?case by simp
qed

lemma chronological_take_ops:
  assumes "chronological t (concat (map op_readings ops))"
  shows "chronological t (concat (map op_readings (take n ops)))"
proof -
  have "concat (map op_readings (take n ops @ drop n ops)) =
        concat (map op_readings (take n ops)) @ concat (map op_readings (drop n ops))"
    by (simp only: map_append concat_append)
  then have "concat (map op_readings ops) =
        concat (map op_readings (take n ops)) @ concat (map op_readings (drop n ops))"
    by (simp only: append_take_drop_id)
  then show ?thesis using assms by (simp add: chronological_append)
qed

lemma refill_mono:
  assumes "0 \<le> refillRate b" "t1 \<le> t2"
  shows "tokens (refill t1 b) \<le> tokens (refill t2 b)"
proof -
  have "(real t1 - real (lastRefill b)) / 1000 * refillRate b
        \<le> (real t2 - real (lastRefill b)) / 1000 * refillRate b"
    using assms by (intro mult_right_mono) simp_all
  then show ?thesis by (simp add: refill_def Let_def min_def)
qed


lemma refill_upper: "tokens (refill now b) \<le> maxTokens (refill now b)"
  by (simp add: refill_def Let_def)

lemma tryAcquire_upper: "tokens (snd (tryAcquire now b)) \<le> maxTokens (snd (tryAcquire now b))"
  using refill_upper[of now b] by (simp add: tryAcquire_def Let_def)

lemma others_run_upper:
  "tokens b \<le> maxTokens b \<Longrightarrow> tokens (others_run ts b) \<le> maxTokens (others_run ts b)"
proof (induction ts arbitrary: b)
  case Nil
  then show ?case by simp
next
  case (Cons t ts)
  show ?case using Cons.IH[OF tryAcquire_upper[of t b]] by simp
qed

lemma acquire_upper:
  "tokens b \<le> maxTokens b \<Longrightarrow>
   tokens (state (acquire env b w)) \<le> maxTokens (state (acquire env b w))"
proof (induction env b w rule: acquire.induct)
  case (1 b w)
  then show ?case by simp
next
  case (2 others now env b w)
  let ?b1 = "refill now (others_run others b)"
  have u: "tokens ?b1 \<le> maxTokens ?b1" by (rule refill_upper)
  show ?case
  proof (cases "tokens ?b1 \<ge> 1")
    case True
    then show ?thesis using u by (simp add: Let_def)
  next
    case False
    from "2.IH"[OF refl False u] show ?thesis using False by (simp add: Let_def)
  qed
qed

lemma apply_op_upper:
  "tokens b \<le> maxTokens b \<Longrightarrow> tokens (apply_op x b) \<le> maxTokens (apply_op x b)"
proof (cases x)
  case (Refill now)
  then show ?thesis using refill_upper[of now b] by simp
next
  case (TryAcquire now)
  then show ?thesis using tryAcquire_upper[of now b] by simp
next
  case (Acquire env)
  assume "tokens b \<le> maxTokens b"
  from acquire_upper[OF this, of env "\<lparr>slept = []\<rparr>"] show ?thesis using Acquire by simp
qed

lemma run_ops_upper:
  "tokens b \<le> maxTokens b \<Longrightarrow> tokens (run_ops ops b) \<le> maxTokens (run_ops ops b)"
proof (induction ops arbitrary: b)
  case Nil
  then show ?case by simp
next
  case (Cons x xs)
  show ?case using Cons.IH[OF apply_op_upper[OF Cons.prems]] by simp
qed

text \<open>
  C9 (as the code has it). Along every sequence of \<open>refill\<close>, \<open>tryAcquire\<close> and
  \<open>acquire\<close> operations (with the attempts of other tasks that interleave with a
  suspended \<open>acquire\<close>), \<open>tokens \<le> maxTokens\<close> is preserved by each step, whatever the
  clock and the rate do. The lower bound \<open>0 \<le> tokens\<close> is preserved by each step when the
  refill rate is not negative and the clock readings never step back, and the token count
  after a refill is monotone in the clock reading, hence in the elapsed time, when the
  refill rate is not negative.
\<close>

theorem bucket_invariant_and_monotone_refill:
  "(tokens b \<le> maxTokens b \<longrightarrow>
      (\<forall>n. tokens (run_ops (take n ops) b) \<le> maxTokens (run_ops (take n ops) b))) \<and>
   (bucket_inv b \<and> 0 \<le> refillRate b \<and>
    chronological (lastRefill b) (concat (map op_readings ops)) \<longrightarrow>
      (\<forall>n. bucket_inv (run_ops (take n ops) b))) \<and>
   (0 \<le> refillRate b \<longrightarrow>
      (\<forall>t1 t2. t1 \<le> t2 \<longrightarrow> tokens (refill t1 b) \<le> tokens (refill t2 b)))"
proof (intro conjI allI impI)
  fix n
  assume "tokens b \<le> maxTokens b"
  then show "tokens (run_ops (take n ops) b) \<le> maxTokens (run_ops (take n ops) b)"
    by (rule run_ops_upper)
next
  fix n
  assume a: "bucket_inv b \<and> 0 \<le> refillRate b \<and>
    chronological (lastRefill b) (concat (map op_readings ops))"
  show "bucket_inv (run_ops (take n ops) b)"
    using run_ops_inv[OF a[THEN conjunct1] a[THEN conjunct2, THEN conjunct1] order_refl
        chronological_take_ops[OF a[THEN conjunct2, THEN conjunct2]]] .
next
  fix t1 t2 :: nat
  assume "0 \<le> refillRate b" and "t1 \<le> t2"
  then show "tokens (refill t1 b) \<le> tokens (refill t2 b)"
    by (rule refill_mono)
qed

theorem bucket_invariant_and_monotone_refill_witness:
  "bucket_inv (FreeeRateLimiter 0) \<and>
   chronological 0 [0, 6000, 12000, 12000, 24000] \<and>
   tokens (run_ops [TryAcquire 0, Refill 6000, Acquire [([12000], 12000), ([], 24000)]]
      (FreeeRateLimiter 0)) \<le>
     maxTokens (run_ops [TryAcquire 0, Refill 6000, Acquire [([12000], 12000), ([], 24000)]]
      (FreeeRateLimiter 0)) \<and>
   bucket_inv (run_ops [TryAcquire 0, Refill 6000, Acquire [([12000], 12000), ([], 24000)]]
      (FreeeRateLimiter 0)) \<and>
   tokens (refill 6000 (FreeeRateLimiter 0)) \<le> tokens (refill 12000 (FreeeRateLimiter 0))"
proof -
  let ?b = "FreeeRateLimiter 0"
  let ?ops = "[TryAcquire 0, Refill 6000, Acquire [([12000], 12000), ([], 24000)]]"
  have b: "?b = \<lparr>maxTokens = 5, refillRate = 5 / 60, tokens = 5, lastRefill = 0\<rparr>"
    by (simp add: FreeeRateLimiter_def RateLimiter_def or_default_def)
  have h1: "bucket_inv ?b" by (simp add: b bucket_inv_def)
  have h2: "0 \<le> refillRate ?b" by (simp add: b)
  have h3: "chronological (lastRefill ?b) (concat (map op_readings ?ops))" by (simp add: b)
  have c: "chronological 0 [0, 6000, 12000, 12000, 24000]" by simp
  note T = bucket_invariant_and_monotone_refill[of ?b ?ops]
  have "bucket_inv (run_ops (take (length ?ops) ?ops) ?b)"
    using T[THEN conjunct2, THEN conjunct1, rule_format, OF conjI[OF h1 conjI[OF h2 h3]]] .
  then have r: "bucket_inv (run_ops ?ops ?b)"
    by (simp only: take_all order_refl)
  have h0: "tokens ?b \<le> maxTokens ?b" by (simp add: b)
  have "tokens (run_ops (take (length ?ops) ?ops) ?b) \<le>
      maxTokens (run_ops (take (length ?ops) ?ops) ?b)"
    using T[THEN conjunct1, rule_format, OF h0] .
  then have u: "tokens (run_ops ?ops ?b) \<le> maxTokens (run_ops ?ops ?b)"
    by (simp only: take_all order_refl)
  have "(6000::nat) \<le> 12000" by simp
  then have m: "tokens (refill 6000 ?b) \<le> tokens (refill 12000 ?b)"
    using T[THEN conjunct2, THEN conjunct2, rule_format, OF h2] by blast
  show ?thesis using h1 c u r m by (intro conjI)
qed

text \<open>
  The claim as it is written fails on the code, which has no lower clamp in \<open>refill\<close>
  and takes any number as the rate. The freee limiter is made at reading 60000 and drained
  there; the clock then steps back to 0 and the next refill leaves \<open>- 5\<close> tokens. A
  limiter made with the rate \<open>- 1\<close> holds \<open>- 1\<close> tokens after six seconds and \<open>- 7\<close>
  after twelve: fewer after the longer time.
\<close>

theorem clock_step_back_leaves_negative_tokens:
  "bucket_inv (FreeeRateLimiter 60000) \<and>
   tokens (run_ops [TryAcquire 60000, TryAcquire 60000, TryAcquire 60000, TryAcquire 60000,
                    TryAcquire 60000, Refill 0] (FreeeRateLimiter 60000)) = - 5 \<and>
   tokens (refill 12000 (RateLimiter \<lparr>opt_maxTokens = Some 5, opt_refillRate = Some (- 1)\<rparr> 0)) = - 7 \<and>
   tokens (refill 6000 (RateLimiter \<lparr>opt_maxTokens = Some 5, opt_refillRate = Some (- 1)\<rparr> 0)) = - 1"
  by (simp add: FreeeRateLimiter_def RateLimiter_def or_default_def tryAcquire_def refill_def
      Let_def bucket_inv_def)

text \<open>
  The wait of \<open>acquire\<close>. With less than one token after the refill it sleeps
  \<open>(1 - tokens) / refillRate * 1000\<close> milliseconds and makes the check again, on the
  bucket as it then is, by calling itself; the call resolves with what that retry resolves
  with. For the freee limiter drained at reading 0 this is one sleep of twelve seconds.
\<close>

lemma acquire_waits_then_retries:
  assumes "tokens (refill now (others_run others b)) < 1" and "refillRate b \<noteq> 0"
  shows "acquire ((others, now) # env) b w =
           acquire env (refill now (others_run others b))
             (sleep (Some ((1 - tokens (refill now (others_run others b))) / refillRate b * 1000)) w)"
  using assms by (simp add: Let_def waitTime_def)

lemma sixth_acquire_waits_twelve_seconds:
  "acquire [([], 0), ([], 12000)] drained_freee \<lparr>slept = []\<rparr> =
     \<lparr>returned = Some True,
      state = \<lparr>maxTokens = 5, refillRate = 5 / 60, tokens = 0, lastRefill = 12000\<rparr>,
      after = \<lparr>slept = [Some 12000]\<rparr>\<rparr>"
  by (simp add: drained_freee_def FreeeRateLimiter_def RateLimiter_def or_default_def
      tryAcquire_def refill_def Let_def waitTime_def sleep_def)

section \<open>Properties of the handling of HTTP 429\<close>

lemma parseInt_two: "parseInt ''2'' = Some 2"
  by (simp add: parseInt_def is_space_def is_digit_def digits_value_def digit_value_def Let_def)

lemma parseInt_hundred: "parseInt ''100'' = Some 100"
  by (simp add: parseInt_def is_space_def is_digit_def digits_value_def digit_value_def Let_def)

lemma parseInt_http_date: "parseInt ''Wed, 21 Oct 2015 07:28:00 GMT'' = None"
  by (simp add: parseInt_def is_space_def is_digit_def digits_value_def digit_value_def Let_def)

text \<open>
  The duration that \<open>handleRateLimit\<close> reads from the headers, case by case. A
  \<open>Retry-After\<close> header that is there decides alone: when it is neither a number nor a
  date, the default of 60 s stays and \<open>X-RateLimit-Reset\<close> is not looked at. An
  \<open>X-RateLimit-Reset\<close> that is not a number gives \<open>NaN\<close>.
\<close>

lemma header_wait_seconds:
  assumes "headers r ''Retry-After'' = Some s" "s \<noteq> []" "parseInt s = Some n"
  shows "header_wait Date_parse now r = Some (real_of_int (n * 1000))"
  using assms by (simp add: header_wait_def truthy_def Let_def)

lemma header_wait_date:
  assumes "headers r ''Retry-After'' = Some s" "s \<noteq> []" "parseInt s = None"
    "Date_parse s = Some d"
  shows "header_wait Date_parse now r = Some (max 0 (real_of_int (d - int now)))"
  using assms by (simp add: header_wait_def truthy_def Let_def)

lemma header_wait_unreadable_retry_after:
  assumes "headers r ''Retry-After'' = Some s" "s \<noteq> []" "parseInt s = None"
    "Date_parse s = None"
  shows "header_wait Date_parse now r = Some 60000"
  using assms by (simp add: header_wait_def truthy_def Let_def)

lemma header_wait_reset:
  assumes "\<not> truthy (headers r ''Retry-After'')" "headers r ''X-RateLimit-Reset'' = Some s"
    "s \<noteq> []" "parseInt s = Some n"
  shows "header_wait Date_parse now r = Some (max 0 (real_of_int (n * 1000 - int now)))"
  using assms by (simp add: header_wait_def truthy_def Let_def)

lemma header_wait_unreadable_reset:
  assumes "\<not> truthy (headers r ''Retry-After'')" "headers r ''X-RateLimit-Reset'' = Some s"
    "s \<noteq> []" "parseInt s = None"
  shows "header_wait Date_parse now r = None"
  using assms by (simp add: header_wait_def truthy_def Let_def)

lemma header_wait_default:
  assumes "\<not> truthy (headers r ''Retry-After'')" "\<not> truthy (headers r ''X-RateLimit-Reset'')"
  shows "header_wait Date_parse now r = Some 60000"
  using assms by (simp add: header_wait_def Let_def)

lemma items_attempt_429:
  assumes "status response = 429"
  shows "items_attempt Date_parse JSON_parse now response w =
           (Inl (Some \<lparr>error_message = ''freee API error: '' @ string_of_nat 429 @ '' ''
                          @ body response,
                        error_status = Some 429, error_code = None, error_response = None\<rparr>),
            sleep (map_option (\<lambda>waitTime. waitTime + 1000) (header_wait Date_parse now response)) w)"
  using assms by (simp add: items_attempt_def ok_def handleRateLimit_def Let_def)

text \<open>
  C4 (as the code has it). In \<open>getItems\<close>, which retries every error, a 429 response to
  an attempt that has a retry left puts two sleeps before the next attempt, one after the
  other: \<open>handleRateLimit\<close> sleeps the duration it reads from the headers
  (\<open>header_wait\<close>, by the cases above) plus 1000 ms inside the attempt, then
  \<open>retryWithBackoff\<close> sleeps its own backoff delay. The run goes on with the next attempt
  in the world that has both sleeps in its log, so the wait is their sum.
\<close>

theorem rate_limited_attempt_waits_twice:
  assumes "status (fetch attempt) = 429" and "attempt < 3"
  shows "retry_loop (\<lambda>k. items_attempt Date_parse JSON_parse (clock k) (fetch k))
           default_options rnd attempt lastError (w :: 'z world_scheme) =
         retry_loop (\<lambda>k. items_attempt Date_parse JSON_parse (clock k) (fetch k))
           default_options rnd (Suc attempt)
           (Some \<lparr>error_message = ''freee API error: '' @ string_of_nat 429 @ '' ''
                     @ body (fetch attempt),
                   error_status = Some 429, error_code = None, error_response = None\<rparr>)
           (sleep (Some (backoff_delay
                 (default_options :: (api_error, 'z world_scheme) retry_options) rnd attempt))
              (sleep (map_option (\<lambda>waitTime. waitTime + 1000)
                        (header_wait Date_parse (clock attempt) (fetch attempt))) w))"
  by (subst retry_loop.simps)
     (use assms in \<open>simp add: items_attempt_429 default_options_def notify_def Let_def\<close>)

theorem rate_limited_attempt_waits_twice_witness:
  "retry_loop
     (\<lambda>k. items_attempt (\<lambda>s. None) (\<lambda>s. Some s) 40000
        \<lparr>status = 429, headers = (\<lambda>h. if h = ''X-RateLimit-Reset'' then Some ''100'' else None),
         body = ''''\<rparr>)
     default_options (\<lambda>k. 1 / 2) 0 None \<lparr>slept = []\<rparr> =
   retry_loop
     (\<lambda>k. items_attempt (\<lambda>s. None) (\<lambda>s. Some s) 40000
        \<lparr>status = 429, headers = (\<lambda>h. if h = ''X-RateLimit-Reset'' then Some ''100'' else None),
         body = ''''\<rparr>)
     default_options (\<lambda>k. 1 / 2) 1
     (Some \<lparr>error_message = ''freee API error: '' @ string_of_nat 429 @ '' '',
       error_status = Some 429, error_code = None, error_response = None\<rparr>)
     \<lparr>slept = [Some 61000, Some 750]\<rparr>"
proof -
  let ?r = "\<lparr>status = 429,
             headers = (\<lambda>h. if h = ''X-RateLimit-Reset'' then Some ''100'' else None),
             body = ''''\<rparr>"
  have h: "header_wait (\<lambda>s. None) 40000 ?r = Some 60000"
    by (simp add: header_wait_def truthy_def parseInt_hundred Let_def)
  have d: "backoff_delay (default_options :: (api_error, world) retry_options) (\<lambda>k. 1 / 2) 0 = 750"
    by (simp add: backoff_delay_def default_options_def)
  have s: "status ?r = 429" by simp
  show ?thesis
    using rate_limited_attempt_waits_twice
      [of "\<lambda>k. ?r" 0 "\<lambda>s. None" "\<lambda>s. Some s" "\<lambda>k. 40000" "\<lambda>k. 1 / 2" None "\<lparr>slept = []\<rparr>"]
    by (simp add: h d sleep_def)
qed

text \<open>
  The claim's "larger of the two" fails on the code. The first response is a 429 with
  \<open>Retry-After: 2\<close>, the second a 200, and \<open>Math.random()\<close> returns 0: the header gives
  2000 ms, with the buffer 3000 ms, and the backoff delay of attempt 0 is 500 ms. The larger
  of the two is 3000 ms; the code sleeps 3000 ms and then 500 ms before the second attempt.
\<close>

theorem rate_limit_wait_is_not_the_larger:
  "header_wait (\<lambda>s. None) 0 too_many_requests = Some 2000 \<and>
   backoff_delay (default_options :: (api_error, world) retry_options) (\<lambda>k. 0) 0 = 500 \<and>
   getItems (\<lambda>s. None) (\<lambda>s. Some s) (\<lambda>k. 0)
      (\<lambda>k. if k = 0 then too_many_requests else ok_empty_list) (\<lambda>k. 0) \<lparr>slept = []\<rparr> =
     (Inr ''[]'', \<lparr>slept = [Some 3000, Some 500]\<rparr>)"
proof -
  have h: "header_wait (\<lambda>s. None) 0 too_many_requests = Some 2000"
    by (simp add: header_wait_def too_many_requests_def truthy_def parseInt_two Let_def)
  have d: "backoff_delay (default_options :: (api_error, world) retry_options) (\<lambda>k. 0) 0 = 500"
    by (simp add: backoff_delay_def default_options_def)
  have st: "status too_many_requests = 429" "status ok_empty_list = 200"
    "body ok_empty_list = ''[]''"
    by (simp_all add: too_many_requests_def ok_empty_list_def)
  show ?thesis
    by (simp add: h d st getItems_def retryWithBackoff_def retry_loop.simps items_attempt_def
        ok_def handleRateLimit_def Let_def default_options_def backoff_delay_def sleep_def
        notify_def)
qed

text \<open>
  \<open>getJournals\<close> does not get as far as a retry: its \<open>shouldRetry\<close> hands the status
  number, not the error, to \<open>isRetryableError\<close>, which finds none of the fields it reads
  and answers false. A 429 there sleeps the header wait and is thrown to the caller.
\<close>

lemma getJournals_rate_limited_is_not_retried:
  assumes "status (fetch 0) = 429"
  shows "getJournals Date_parse JSON_parse clock fetch rnd w =
     (Inl (Thrown (Some \<lparr>error_message = ''freee API error: '' @ string_of_nat 429 @ '' ''
                    @ body (fetch 0),
                  error_status = Some 429, error_code = None,
                  error_response = Some (body (fetch 0))\<rparr>)),
      sleep (map_option (\<lambda>waitTime. waitTime + 1000)
                  (header_wait Date_parse (clock 0) (fetch 0))) w)"
  using assms
  by (simp add: getJournals_def retryWithBackoff_def retry_loop.simps journals_attempt_def ok_def
      handleRateLimit_def Let_def default_options_def isRetryableError_def)

section \<open>Properties of the credential store\<close>

lemma getOrCreateKey_token_file: "token_file (snd (getOrCreateKey eng st)) = token_file st"
  by (simp add: getOrCreateKey_def Let_def split: option.splits sum.splits)

text \<open>
  C3 (as the code has it). \<open>loadSecureTokens\<close> never raises. Whenever its \<open>try\<close> block
  fails it returns the empty map, and the block fails when the key cannot be obtained, when
  the credential file is missing (\<open>ENOENT\<close>), when the file text does not parse, when the
  blob does not open under the key, and when the opened text does not parse; only when all
  of these steps succeed is the stored map returned.
\<close>

theorem loadSecureTokens_swallows_every_error:
  "\<not> isl (fst (loadSecureTokens eng st)) \<and>
   (isl (fst (load_try eng st)) \<longrightarrow> fst (loadSecureTokens eng st) = Inr Map.empty) \<and>
   (\<forall>e. fst (getOrCreateKey eng st) = Inl e \<longrightarrow> isl (fst (load_try eng st))) \<and>
   (\<forall>key. fst (getOrCreateKey eng st) = Inr key \<longrightarrow>
      (token_file st = Missing \<longrightarrow> fst (load_try eng st) = Inl (Errno ''ENOENT'')) \<and>
      (\<forall>s. token_file st = Content s \<longrightarrow>
         (case JSON_parse_blob eng s of
            None \<Rightarrow> fst (load_try eng st) = Inl SyntaxError
          | Some parsed \<Rightarrow>
              (case aes_256_gcm_open eng key (iv parsed) (authTag parsed) (encrypted parsed) of
                 None \<Rightarrow> fst (load_try eng st) = Inl CryptoError
               | Some decrypted \<Rightarrow>
                   (case JSON_parse_tokens eng decrypted of
                      None \<Rightarrow> fst (load_try eng st) = Inl SyntaxError
                    | Some t \<Rightarrow> fst (loadSecureTokens eng st) = Inr t)))))"
proof (intro conjI allI impI)
  show "\<not> isl (fst (loadSecureTokens eng st))"
    by (simp add: loadSecureTokens_def split: prod.splits sum.splits)
next
  assume "isl (fst (load_try eng st))"
  then show "fst (loadSecureTokens eng st) = Inr Map.empty"
    by (auto simp: loadSecureTokens_def split: prod.splits sum.splits)
next
  fix e assume "fst (getOrCreateKey eng st) = Inl e"
  then show "isl (fst (load_try eng st))"
    by (auto simp: load_try_def split: prod.splits sum.splits)
next
  fix key assume k: "fst (getOrCreateKey eng st) = Inr key" and m: "token_file st = Missing"
  obtain st1 where g: "getOrCreateKey eng st = (Inr key, st1)"
    using k by (cases "getOrCreateKey eng st") simp
  have "token_file st1 = Missing" using getOrCreateKey_token_file[of eng st] g m by simp
  then show "fst (load_try eng st) = Inl (Errno ''ENOENT'')"
    by (simp add: load_try_def g readFile_def)
next
  fix key s assume k: "fst (getOrCreateKey eng st) = Inr key" and c: "token_file st = Content s"
  obtain st1 where g: "getOrCreateKey eng st = (Inr key, st1)"
    using k by (cases "getOrCreateKey eng st") simp
  have "token_file st1 = Content s" using getOrCreateKey_token_file[of eng st] g c by simp
  then show "case JSON_parse_blob eng s of
            None \<Rightarrow> fst (load_try eng st) = Inl SyntaxError
          | Some parsed \<Rightarrow>
              (case aes_256_gcm_open eng key (iv parsed) (authTag parsed) (encrypted parsed) of
                 None \<Rightarrow> fst (load_try eng st) = Inl CryptoError
               | Some decrypted \<Rightarrow>
                   (case JSON_parse_tokens eng decrypted of
                      None \<Rightarrow> fst (load_try eng st) = Inl SyntaxError
                    | Some t \<Rightarrow> fst (loadSecureTokens eng st) = Inr t))"
    by (simp add: loadSecureTokens_def load_try_def g readFile_def decrypt_def split: option.splits)
qed

theorem loadSecureTokens_swallows_every_error_witness:
  "fst (getOrCreateKey toy_engine
      \<lparr>encryptionKey = None, key_file = Content ''key'', token_file = Content ''{blob}'',
       write_error = None\<rparr>) = Inr ''key'' \<and>
   fst (loadSecureTokens toy_engine
      \<lparr>encryptionKey = None, key_file = Content ''key'', token_file = Content ''{blob}'',
       write_error = None\<rparr>) = Inr [''freee'' \<mapsto> stored_credential] \<and>
   fst (getOrCreateKey toy_engine
      \<lparr>encryptionKey = None, key_file = Content ''key'', token_file = Missing,
       write_error = None\<rparr>) = Inr ''key'' \<and>
   fst (loadSecureTokens toy_engine
      \<lparr>encryptionKey = None, key_file = Content ''key'', token_file = Missing,
       write_error = None\<rparr>) = Inr Map.empty"
proof -
  let ?st = "\<lparr>encryptionKey = None, key_file = Content ''key'', token_file = Content ''{blob}'',
       write_error = None\<rparr>"
  let ?st' = "\<lparr>encryptionKey = None, key_file = Content ''key'', token_file = Missing,
       write_error = None\<rparr>"
  have k: "fst (getOrCreateKey toy_engine ?st) = Inr ''key''"
    and k': "fst (getOrCreateKey toy_engine ?st') = Inr ''key''"
    by (simp_all add: getOrCreateKey_def readFile_def)
  have a: "fst (loadSecureTokens toy_engine ?st) = Inr [''freee'' \<mapsto> stored_credential]"
    using loadSecureTokens_swallows_every_error[of toy_engine ?st] k
    by (simp add: toy_engine_def)
  have "fst (load_try toy_engine ?st') = Inl (Errno ''ENOENT'')"
    using loadSecureTokens_swallows_every_error[of toy_engine ?st'] k' by simp
  then have b: "fst (loadSecureTokens toy_engine ?st') = Inr Map.empty"
    using loadSecureTokens_swallows_every_error[of toy_engine ?st'] by simp
  show ?thesis using k k' a b by (intro conjI)
qed

text \<open>
  The claim's \<open>DecryptionError\<close> is never raised. Two present but corrupt inputs, a
  truncated file text and a blob under the wrong key, both load as the empty map.
\<close>

theorem corrupt_blob_loads_as_empty_map:
  "fst (loadSecureTokens toy_engine
      \<lparr>encryptionKey = None, key_file = Content ''key'', token_file = Content ''{bl'',
       write_error = None\<rparr>) = Inr Map.empty \<and>
   fst (loadSecureTokens toy_engine
      \<lparr>encryptionKey = None, key_file = Content ''yek'', token_file = Content ''{blob}'',
       write_error = None\<rparr>) = Inr Map.empty"
  by (simp add: loadSecureTokens_def load_try_def getOrCreateKey_def readFile_def decrypt_def
      toy_engine_def)

section \<open>Properties of the token lifecycle manager\<close>

lemma refreshFreeeToken_logged:
  "refreshes (snd (refreshFreeeToken out st)) = refreshes st @ [''freee'']"
  by (simp add: refreshFreeeToken_def Let_def split: prod.splits sum.splits option.splits)

lemma refreshQuickBooksToken_logged:
  "refreshes (snd (refreshQuickBooksToken out st)) = refreshes st @ [''quickbooks'']"
  by (simp add: refreshQuickBooksToken_def Let_def split: prod.splits sum.splits option.splits)

text \<open>
  C5 (as the code has it). For a provider with a cached token \<open>t\<close> and a recorded expiry
  \<open>e\<close>: when \<open>e\<close> minus five minutes is later than now, \<open>getAccessToken\<close> returns
  \<open>t\<close> and leaves the state as it is, so no refresh is made. Otherwise it does not return
  the cached token from the cache: it calls \<open>requestToken\<close> and caches what that gives
  for one hour. \<open>requestToken\<close> returns the provider's static access token of the
  environment when one is set, with no refresh; only without one does it enter the
  provider's refresh function.
\<close>

theorem getAccessToken_cache_window:
  assumes "cachedTokens st provider = Some t" and "t \<noteq> []"
    and "tokenExpiresAt st provider = Some e"
  shows "(e - 5 * 60 * 1000 > int now \<longrightarrow>
            getAccessToken out now provider st = (Inr (Some t), st)) \<and>
         (\<not> e - 5 * 60 * 1000 > int now \<longrightarrow>
            getAccessToken out now provider st =
              (case requestToken out provider st of
                 (Inl error, st1) \<Rightarrow> (Inl error, st1)
               | (Inr (token, expiresIn), st1) \<Rightarrow>
                   (Inr token,
                    st1\<lparr>cachedTokens := (cachedTokens st1)(provider := token),
                        tokenExpiresAt :=
                          (tokenExpiresAt st1)(provider \<mapsto> int now + expiresIn * 1000)\<rparr>))) \<and>
         (provider = ''freee'' \<and> truthy (process_env out ''FREEE_ACCESS_TOKEN'') \<longrightarrow>
            requestToken out provider st = (Inr (process_env out ''FREEE_ACCESS_TOKEN'', 3600), st)) \<and>
         (provider = ''quickbooks'' \<and> truthy (process_env out ''QB_ACCESS_TOKEN'') \<longrightarrow>
            requestToken out provider st = (Inr (process_env out ''QB_ACCESS_TOKEN'', 3600), st)) \<and>
         (provider = ''freee'' \<and> \<not> truthy (process_env out ''FREEE_ACCESS_TOKEN'') \<longrightarrow>
            refreshes (snd (requestToken out provider st)) = refreshes st @ [''freee'']) \<and>
         (provider = ''quickbooks'' \<and> \<not> truthy (process_env out ''QB_ACCESS_TOKEN'') \<longrightarrow>
            refreshes (snd (requestToken out provider st)) = refreshes st @ [''quickbooks''])"
proof (intro conjI impI)
  have tr: "truthy (cachedTokens st provider)" using assms(1,2) by (simp add: truthy_def)
  have main: "getAccessToken out now provider st = cached_or_request out now provider st"
    using tr by (simp add: getAccessToken_def)
  {
    assume fresh: "e - 5 * 60 * 1000 > int now"
    then have "e \<noteq> 0" by linarith
    then show "getAccessToken out now provider st = (Inr (Some t), st)"
      using fresh tr assms(1,3) by (simp add: main cached_or_request_def REFRESH_BUFFER_SECONDS_def)
  }
  {
    assume stale: "\<not> e - 5 * 60 * 1000 > int now"
    then show "getAccessToken out now provider st =
              (case requestToken out provider st of
                 (Inl error, st1) \<Rightarrow> (Inl error, st1)
               | (Inr (token, expiresIn), st1) \<Rightarrow>
                   (Inr token,
                    st1\<lparr>cachedTokens := (cachedTokens st1)(provider := token),
                        tokenExpiresAt :=
                          (tokenExpiresAt st1)(provider \<mapsto> int now + expiresIn * 1000)\<rparr>))"
      using assms(3) by (simp add: main cached_or_request_def REFRESH_BUFFER_SECONDS_def)
  }
  {
    assume "provider = ''freee'' \<and> truthy (process_env out ''FREEE_ACCESS_TOKEN'')"
    then show "requestToken out provider st = (Inr (process_env out ''FREEE_ACCESS_TOKEN'', 3600), st)"
      by (simp add: requestToken_def)
  }
  {
    assume "provider = ''quickbooks'' \<and> truthy (process_env out ''QB_ACCESS_TOKEN'')"
    then show "requestToken out provider st = (Inr (process_env out ''QB_ACCESS_TOKEN'', 3600), st)"
      by (simp add: requestToken_def)
  }
  {
    assume "provider = ''freee'' \<and> \<not> truthy (process_env out ''FREEE_ACCESS_TOKEN'')"
    then show "refreshes (snd (requestToken out provider st)) = refreshes st @ [''freee'']"
      using refreshFreeeToken_logged[of out st]
      by (auto simp: requestToken_def split: prod.splits sum.splits)
  }
  {
    assume "provider = ''quickbooks'' \<and> \<not> truthy (process_env out ''QB_ACCESS_TOKEN'')"
    then show "refreshes (snd (requestToken out provider st)) = refreshes st @ [''quickbooks'']"
      using refreshQuickBooksToken_logged[of out st]
      by (auto simp: requestToken_def split: prod.splits sum.splits)
  }
qed

theorem getAccessToken_cache_window_witness:
  "getAccessToken example_outside 0 ''freee''
     (example_manager\<lparr>tokenExpiresAt := [''freee'' \<mapsto> 600000]\<rparr>) =
     (Inr (Some ''A1''), example_manager\<lparr>tokenExpiresAt := [''freee'' \<mapsto> 600000]\<rparr>) \<and>
   refreshes (snd (requestToken example_outside ''freee'' example_manager)) = [''freee''] \<and>
   requestToken static_outside ''freee'' example_manager = (Inr (Some ''A1'', 3600), example_manager)"
proof -
  let ?st = "example_manager\<lparr>tokenExpiresAt := [''freee'' \<mapsto> 600000]\<rparr>"
  have a: "getAccessToken example_outside 0 ''freee'' ?st = (Inr (Some ''A1''), ?st)"
    using getAccessToken_cache_window[of ?st "''freee''" "''A1''" 600000 0 example_outside]
    by (simp add: example_manager_def)
  have b: "refreshes (snd (requestToken example_outside ''freee'' example_manager)) = [''freee'']"
    using getAccessToken_cache_window
      [of example_manager "''freee''" "''A1''" 240000 0 example_outside]
    by (simp add: example_manager_def example_outside_def truthy_def)
  have c: "requestToken static_outside ''freee'' example_manager =
      (Inr (Some ''A1'', 3600), example_manager)"
    using getAccessToken_cache_window
      [of example_manager "''freee''" "''A1''" 240000 0 static_outside]
    by (simp add: example_manager_def static_outside_def example_outside_def truthy_def)
  show ?thesis using a b c by (intro conjI)
qed

text \<open>
  The claim's "performs a refresh" fails on the code. The cached freee token \<open>A1\<close> expires
  in four minutes, inside the buffer, and the environment has \<open>FREEE_ACCESS_TOKEN = A1\<close>:
  \<open>getAccessToken\<close> returns \<open>A1\<close> once more and no refresh function is entered.
\<close>

theorem expiring_token_is_not_refreshed_with_static_token:
  "tokenExpiresAt example_manager ''freee'' = Some (4 * 60 * 1000) \<and>
   fst (getAccessToken static_outside 0 ''freee'' example_manager) = Inr (Some ''A1'') \<and>
   refreshes (snd (getAccessToken static_outside 0 ''freee'' example_manager)) = []"
  by (simp add: getAccessToken_def cached_or_request_def requestToken_def static_outside_def
      example_outside_def example_manager_def truthy_def REFRESH_BUFFER_SECONDS_def)

text \<open>Without the static token the same call does refresh, and returns the new token.\<close>

lemma expiring_token_is_refreshed_without_static_token:
  "fst (getAccessToken example_outside 0 ''freee'' example_manager) = Inr (Some ''A2'') \<and>
   refreshes (snd (getAccessToken example_outside 0 ''freee'' example_manager)) = [''freee'']"
  by (simp add: getAccessToken_def cached_or_request_def requestToken_def refreshFreeeToken_def
      getStoredToken_def storeTokenSecurely_def saveSecureTokens_def encrypt_def
      loadSecureTokens_def load_try_def getOrCreateKey_def readFile_def decrypt_def
      toy_engine_def stored_credential_def ok_def Let_def
      example_outside_def example_manager_def truthy_def REFRESH_BUFFER_SECONDS_def)

section \<open>Properties of the request cache\<close>

lemma set_own_keys [simp]: "set (own_keys ks) = set ks"
  by (auto simp: own_keys_def)

lemma distinct_own_keys: "distinct ks \<Longrightarrow> distinct (own_keys ks)"
  by (auto simp: own_keys_def)

lemma sorted_keys_unique:
  assumes "distinct ks" "distinct ks'" "set ks = set ks'"
  shows "sort (own_keys ks) = sort (own_keys ks')"
proof (rule sorted_distinct_set_unique)
  show "sorted (sort (own_keys ks))" "sorted (sort (own_keys ks'))" by simp_all
  show "distinct (sort (own_keys ks))" using distinct_own_keys[OF assms(1)] by simp
  show "distinct (sort (own_keys ks'))" using distinct_own_keys[OF assms(2)] by simp
  show "set (sort (own_keys ks)) = set (sort (own_keys ks'))" using assms(3) by simp
qed

lemma same_bindings_same_props:
  assumes "distinct (map fst p)" "distinct (map fst q)" "set p = set q"
  shows "get_prop p = get_prop q"
proof -
  have "map_of p = map_of q" using assms by (simp add: map_of_inject_set)
  then show ?thesis by (simp add: get_prop_def fun_eq_iff)
qed

lemma sortedParams_order_independent:
  assumes "distinct (map fst p)" "distinct (map fst q)" "set p = set q"
  shows "sortedParams p = sortedParams q"
proof -
  have "set (map fst p) = set (map fst q)" using assms(3) by simp
  then have "sort (Object_keys p) = sort (Object_keys q)"
    unfolding Object_keys_def using sorted_keys_unique[OF assms(1,2)] by blast
  then show ?thesis
    unfolding sortedParams_def same_bindings_same_props[OF assms] by simp
qed

lemma generateCacheKey_order_independent:
  assumes "distinct (map fst p)" "distinct (map fst q)" "set p = set q"
  shows "generateCacheKey eng e p = generateCacheKey eng e q"
  unfolding generateCacheKey_def sortedParams_order_independent[OF assms] ..

lemma foldl_skip:
  "foldl (\<lambda>acc k. if P k then f acc k else acc) a ks = foldl f a (filter P ks)"
  by (induction ks arbitrary: a) simp_all

lemma sortedParams_filtered:
  "sortedParams p =
     foldl (\<lambda>acc k. set_prop acc k (get_prop p k)) [] (filter (kept p) (sort (Object_keys p)))"
  unfolding sortedParams_def kept_def by (rule foldl_skip)

lemma map_of_drop_nullish:
  assumes "distinct (map fst p)"
  shows "map_of (filter (\<lambda>(k, v). v \<noteq> Undefined \<and> v \<noteq> Null) p) k =
         (case map_of p k of
            None \<Rightarrow> None
          | Some v \<Rightarrow> if v \<noteq> Undefined \<and> v \<noteq> Null then Some v else None)"
  using assms
proof (induction p)
  case Nil
  then show ?case by simp
next
  case (Cons a p)
  obtain k' v' where a: "a = (k', v')" by (cases a)
  have notin: "map_of p k' = None" using Cons.prems a by (simp add: map_of_eq_None_iff)
  show ?case using Cons a notin by (auto split: option.splits)
qed

lemma get_prop_drop_nullish:
  assumes "distinct (map fst p)"
  shows "get_prop (filter (\<lambda>(k, v). v \<noteq> Undefined \<and> v \<noteq> Null) p) k =
         (if kept p k then get_prop p k else Undefined)"
  by (auto simp: get_prop_def kept_def map_of_drop_nullish[OF assms] split: option.splits)

lemma keys_drop_nullish:
  assumes "distinct (map fst p)"
  shows "set (map fst (filter (\<lambda>(k, v). v \<noteq> Undefined \<and> v \<noteq> Null) p)) =
         {k \<in> set (map fst p). kept p k}"
proof -
  have "\<And>k v. (k, v) \<in> set p \<Longrightarrow> get_prop p k = v"
    using assms by (simp add: get_prop_def)
  then show ?thesis by (force simp: kept_def)
qed

lemma sorted_keys_drop_nullish:
  assumes "distinct (map fst p)"
  shows "filter (kept (filter (\<lambda>(k, v). v \<noteq> Undefined \<and> v \<noteq> Null) p))
           (sort (Object_keys (filter (\<lambda>(k, v). v \<noteq> Undefined \<and> v \<noteq> Null) p))) =
         filter (kept p) (sort (Object_keys p))"
proof (rule sorted_distinct_set_unique)
  let ?p' = "filter (\<lambda>(k, v). v \<noteq> Undefined \<and> v \<noteq> Null) p"
  have d': "distinct (map fst ?p')" using assms by (simp add: distinct_map_filter)
  show "sorted (filter (kept ?p') (sort (Object_keys ?p')))"
    and "sorted (filter (kept p) (sort (Object_keys p)))" by (simp_all add: sorted_wrt_filter)
  show "distinct (filter (kept ?p') (sort (Object_keys ?p')))"
    using distinct_own_keys[OF d'] by (simp add: Object_keys_def)
  show "distinct (filter (kept p) (sort (Object_keys p)))"
    using distinct_own_keys[OF assms] by (simp add: Object_keys_def)
  have "\<And>k. kept ?p' k = kept p k"
    by (auto simp: kept_def get_prop_drop_nullish[OF assms])
  then show "set (filter (kept ?p') (sort (Object_keys ?p'))) =
        set (filter (kept p) (sort (Object_keys p)))"
    using keys_drop_nullish[OF assms] by (auto simp: Object_keys_def)
qed

lemma sortedParams_drop_nullish:
  assumes "distinct (map fst p)"
  shows "sortedParams (filter (\<lambda>(k, v). v \<noteq> Undefined \<and> v \<noteq> Null) p) = sortedParams p"
proof -
  let ?p' = "filter (\<lambda>(k, v). v \<noteq> Undefined \<and> v \<noteq> Null) p"
  let ?ks = "filter (kept p) (sort (Object_keys p))"
  have "sortedParams ?p' = foldl (\<lambda>acc k. set_prop acc k (get_prop ?p' k)) [] ?ks"
    unfolding sortedParams_filtered sorted_keys_drop_nullish[OF assms] ..
  also have "\<dots> = foldl (\<lambda>acc k. set_prop acc k (get_prop p k)) [] ?ks"
    by (rule foldl_cong) (simp_all add: get_prop_drop_nullish[OF assms])
  finally show ?thesis unfolding sortedParams_filtered[of p] .
qed

lemma saveToCache_rows:
  assumes "fst (saveToCache eng now e p v opts db)"
  shows "\<exists>row. cache (snd (saveToCache eng now e p v opts db)) =
           filter (\<lambda>(k, r). k \<noteq> generateCacheKey eng e p) (cache db) @
             [(generateCacheKey eng e p, row)] \<and>
         JSON_stringify_value eng v = Some (row_data row) \<and>
         row_created_at row = now \<and>
         row_expires_at row = int now + (case ttl opts of None \<Rightarrow> 300000 | Some t \<Rightarrow> t) \<and>
         row_metadata row =
           (if js_truthy (case metadata opts of None \<Rightarrow> Null | Some m \<Rightarrow> m)
            then JSON_stringify_value eng (case metadata opts of None \<Rightarrow> Null | Some m \<Rightarrow> m)
            else None)"
  using assms
  by (auto simp: saveToCache_def Let_def split: option.splits if_splits)


lemma lookup_replaced:
  "map_of (filter (\<lambda>(k, r). k \<noteq> key) rows @ [(key, row)]) key = Some row"
proof -
  have "map_of (filter (\<lambda>(k, r). k \<noteq> key) rows) key = None"
    by (auto simp: map_of_eq_None_iff)
  then show ?thesis by (simp add: map_add_def)
qed

lemma length_replaced_twice:
  "length (filter (\<lambda>(k, r). k \<noteq> key)
             (filter (\<lambda>(k, r). k \<noteq> key) rows @ [(key, row)]) @ [(key, row')]) =
   length (filter (\<lambda>(k, r). k \<noteq> key) rows @ [(key, row)])"
  by simp




text \<open>
  C7. Two parameter objects with the same bindings, added in any order, have the same
  cache key; and when \<open>saveToCache\<close> succeeds with the one and then with the other, the
  second row replaces the first: the table has as many rows as before, exactly one of them
  under the key, and it holds the second value.
\<close>

theorem reordered_params_share_one_entry:
  assumes "distinct (map fst p)" and "distinct (map fst q)" and "set p = set q"
  shows "generateCacheKey eng e p = generateCacheKey eng e q \<and>
         (fst (saveToCache eng t1 e p v1 o1 db) \<and>
          fst (saveToCache eng t2 e q v2 o2 (snd (saveToCache eng t1 e p v1 o1 db))) \<longrightarrow>
            length (cache (snd (saveToCache eng t2 e q v2 o2 (snd (saveToCache eng t1 e p v1 o1 db))))) =
              length (cache (snd (saveToCache eng t1 e p v1 o1 db))) \<and>
            map_option row_data (map_of (cache (snd (saveToCache eng t2 e q v2 o2
                (snd (saveToCache eng t1 e p v1 o1 db))))) (generateCacheKey eng e p)) =
              JSON_stringify_value eng v2 \<and>
            length (filter (\<lambda>(k, r). k = generateCacheKey eng e p)
               (cache (snd (saveToCache eng t2 e q v2 o2 (snd (saveToCache eng t1 e p v1 o1 db)))))) = 1)"
proof (intro conjI impI)
  show key: "generateCacheKey eng e p = generateCacheKey eng e q"
    using generateCacheKey_order_independent[OF assms] .
  let ?key = "generateCacheKey eng e p"
  let ?db1 = "snd (saveToCache eng t1 e p v1 o1 db)"
  let ?db2 = "snd (saveToCache eng t2 e q v2 o2 ?db1)"
  assume both: "fst (saveToCache eng t1 e p v1 o1 db) \<and> fst (saveToCache eng t2 e q v2 o2 ?db1)"
  from saveToCache_rows[OF both[THEN conjunct1]] obtain row1 where
    r1: "cache ?db1 = filter (\<lambda>(k, r). k \<noteq> ?key) (cache db) @ [(?key, row1)]" by blast
  from saveToCache_rows[OF both[THEN conjunct2]] obtain row2 where
    r2: "cache ?db2 = filter (\<lambda>(k, r). k \<noteq> ?key) (cache ?db1) @ [(?key, row2)]"
    and d2: "JSON_stringify_value eng v2 = Some (row_data row2)"
    unfolding key[symmetric] by blast
  show "length (cache ?db2) = length (cache ?db1)"
    unfolding r2 unfolding r1 by simp
  have "map_of (cache ?db2) ?key = Some row2"
    unfolding r2 by (rule lookup_replaced)
  then show "map_option row_data (map_of (cache ?db2) ?key) = JSON_stringify_value eng v2"
    by (simp add: d2)
  show "length (filter (\<lambda>(k, r). k = ?key) (cache ?db2)) = 1"
    unfolding r2 by (simp add: filter_filter case_prod_unfold)
qed

theorem reordered_params_share_one_entry_witness:
  "generateCacheKey toy_cache_engine ''/freee/items'' [(''a'', Str ''1''), (''b'', Str ''2'')] =
     generateCacheKey toy_cache_engine ''/freee/items'' [(''b'', Str ''2''), (''a'', Str ''1'')] \<and>
   length (cache (snd (saveToCache toy_cache_engine 7 ''/freee/items''
        [(''b'', Str ''2''), (''a'', Str ''1'')] (Str ''second'') \<lparr>ttl = None, metadata = None\<rparr>
        (snd (saveToCache toy_cache_engine 5 ''/freee/items''
           [(''a'', Str ''1''), (''b'', Str ''2'')] (Str ''first'') \<lparr>ttl = None, metadata = None\<rparr>
           empty_cache))))) = 1 \<and>
   map_option row_data (map_of (cache (snd (saveToCache toy_cache_engine 7 ''/freee/items''
        [(''b'', Str ''2''), (''a'', Str ''1'')] (Str ''second'') \<lparr>ttl = None, metadata = None\<rparr>
        (snd (saveToCache toy_cache_engine 5 ''/freee/items''
           [(''a'', Str ''1''), (''b'', Str ''2'')] (Str ''first'') \<lparr>ttl = None, metadata = None\<rparr>
           empty_cache)))))
      (generateCacheKey toy_cache_engine ''/freee/items'' [(''a'', Str ''1''), (''b'', Str ''2'')])) =
     Some ''second''"
proof -
  let ?p = "[(''a'', Str ''1''), (''b'', Str ''2'')]"
  let ?q = "[(''b'', Str ''2''), (''a'', Str ''1'')]"
  let ?o = "\<lparr>ttl = None, metadata = None\<rparr>"
  let ?db1 = "snd (saveToCache toy_cache_engine 5 ''/freee/items'' ?p (Str ''first'') ?o empty_cache)"
  have h1: "distinct (map fst ?p)" and h2: "distinct (map fst ?q)" and h3: "set ?p = set ?q"
    by auto
  note T = reordered_params_share_one_entry[OF h1 h2 h3, of toy_cache_engine "''/freee/items''"
      5 "Str ''first''" ?o empty_cache 7 "Str ''second''" ?o]
  have s1: "fst (saveToCache toy_cache_engine 5 ''/freee/items'' ?p (Str ''first'') ?o empty_cache)"
    by (simp add: saveToCache_def Let_def toy_cache_engine_def js_truthy_def)
  have s2: "fst (saveToCache toy_cache_engine 7 ''/freee/items'' ?q (Str ''second'') ?o ?db1)"
    by (simp add: saveToCache_def[of _ 7] Let_def toy_cache_engine_def js_truthy_def)
  have l1: "length (cache ?db1) = 1"
    by (simp add: saveToCache_def Let_def toy_cache_engine_def js_truthy_def empty_cache_def)
  have v2: "JSON_stringify_value toy_cache_engine (Str ''second'') = Some ''second''"
    by (simp add: toy_cache_engine_def)
  have key: "generateCacheKey toy_cache_engine ''/freee/items'' ?p =
      generateCacheKey toy_cache_engine ''/freee/items'' ?q"
    using T by (rule conjunct1)
  note rest = T[THEN conjunct2, rule_format, OF conjI[OF s1 s2]]
  have A: "length (cache (snd (saveToCache toy_cache_engine 7 ''/freee/items'' ?q
      (Str ''second'') ?o ?db1))) = 1"
    using rest[THEN conjunct1] unfolding l1 .
  have B: "map_option row_data (map_of (cache (snd (saveToCache toy_cache_engine 7
      ''/freee/items'' ?q (Str ''second'') ?o ?db1)))
      (generateCacheKey toy_cache_engine ''/freee/items'' ?p)) = Some ''second''"
    using rest[THEN conjunct2, THEN conjunct1] unfolding v2 .
  show ?thesis using key A B by (intro conjI)
qed

text \<open>
  C10. A parameter whose value is \<open>null\<close> or \<open>undefined\<close> does not reach the cache key:
  the object without these bindings has the same key, and so \<open>getFromCache\<close> and
  \<open>saveToCache\<close> treat the two objects alike.
\<close>

theorem cache_key_ignores_nullish:
  assumes "distinct (map fst p)"
  shows "generateCacheKey eng e (filter (\<lambda>(k, v). v \<noteq> Undefined \<and> v \<noteq> Null) p) =
           generateCacheKey eng e p \<and>
         getFromCache eng now e (filter (\<lambda>(k, v). v \<noteq> Undefined \<and> v \<noteq> Null) p) db =
           getFromCache eng now e p db \<and>
         saveToCache eng now e (filter (\<lambda>(k, v). v \<noteq> Undefined \<and> v \<noteq> Null) p) d opts db =
           saveToCache eng now e p d opts db"
proof -
  have key: "generateCacheKey eng e (filter (\<lambda>(k, v). v \<noteq> Undefined \<and> v \<noteq> Null) p) =
           generateCacheKey eng e p"
    unfolding generateCacheKey_def sortedParams_drop_nullish[OF assms] ..
  show ?thesis unfolding getFromCache_def saveToCache_def key by simp
qed

theorem cache_key_ignores_nullish_witness:
  "generateCacheKey toy_cache_engine ''/freee/items'' [(''a'', Str ''1'')] =
     generateCacheKey toy_cache_engine ''/freee/items'' [(''a'', Str ''1''), (''b'', Null)] \<and>
   generateCacheKey toy_cache_engine ''/freee/items'' [(''a'', Str ''1'')] =
     generateCacheKey toy_cache_engine ''/freee/items'' [(''c'', Undefined), (''a'', Str ''1'')]"
proof -
  have "distinct (map fst [(''a'', Str ''1''), (''b'', Null)])"
    and "distinct (map fst [(''c'', Undefined), (''a'', Str ''1'')])" by simp_all
  from cache_key_ignores_nullish[OF this(1), of toy_cache_engine "''/freee/items''"]
    cache_key_ignores_nullish[OF this(2), of toy_cache_engine "''/freee/items''"]
  show ?thesis by simp
qed

section \<open>Properties of the audit log\<close>

lemma generateAuditHash_protected:
  "generateAuditHash eng entry = generateAuditHash eng (protected_fields entry)"
  by (simp add: generateAuditHash_def hashed_object_def protected_fields_def)











end
